theory Spec2Isabelle
  imports
    Complex_Main
    "HOL-Library.Char_ord"
    "HOL-Library.List_Lexorder"
    "HOL-Library.Product_Lexorder"
    "HOL-Library.Sublist"
    "HOL-Library.Multiset"
begin

section \<open>Characters and strings\<close>

text \<open>
  Python strings are modelled as \<^typ>\<open>string\<close>. The model is exact on ASCII text: the
  character classes \<open>\s\<close>, \<open>\d\<close>, \<open>\w\<close> and the case mappings are those of Python on
  code points below 128; every other character is neither a space, a digit, a word
  character nor a cased letter. The two non-ASCII members of the source's classes
  (U+2019 in \<open>MONEY_RE\<close>, U+00A0 in \<open>REF_LABELLED_RE\<close>) have no counterpart in
  \<^typ>\<open>char\<close> and are left out; on ASCII text they never match.
\<close>

definition is_space :: "char \<Rightarrow> bool" where
  "is_space c = (c \<in> set [CHR '' '', CHR 0x09, CHR 0x0A, CHR 0x0B, CHR 0x0C, CHR 0x0D,
                          CHR 0x1C, CHR 0x1D, CHR 0x1E, CHR 0x1F])"

definition is_digit :: "char \<Rightarrow> bool" where
  "is_digit c = (c \<in> set ''0123456789'')"

definition lowers :: string where
  "lowers = ''abcdefghijklmnopqrstuvwxyz''"

definition uppers :: string where
  "uppers = ''ABCDEFGHIJKLMNOPQRSTUVWXYZ''"

definition is_alpha :: "char \<Rightarrow> bool" where
  "is_alpha c = (c \<in> set lowers \<or> c \<in> set uppers)"

text \<open>\<open>\w\<close>: letters, digits and the underscore.\<close>

definition is_word :: "char \<Rightarrow> bool" where
  "is_word c = (is_alpha c \<or> is_digit c \<or> c = CHR ''_'')"

definition upper_char :: "char \<Rightarrow> char" where
  "upper_char c = (case map_of (zip lowers uppers) c of Some u \<Rightarrow> u | None \<Rightarrow> c)"

definition lower_char :: "char \<Rightarrow> char" where
  "lower_char c = (case map_of (zip uppers lowers) c of Some l \<Rightarrow> l | None \<Rightarrow> c)"

text \<open>\<open>str.upper()\<close> and \<open>str.lower()\<close>.\<close>

definition upper :: "string \<Rightarrow> string" where
  "upper s = map upper_char s"

definition lower :: "string \<Rightarrow> string" where
  "lower s = map lower_char s"

text \<open>
  \<open>str.title()\<close>: a character that follows a cased character is lowercased, any other
  character is titlecased; the flag is the casedness of the original character.
\<close>

fun title_from :: "bool \<Rightarrow> string \<Rightarrow> string" where
  "title_from prev_cased [] = []"
| "title_from prev_cased (c # cs) =
     (if prev_cased then lower_char c else upper_char c) # title_from (is_alpha c) cs"

definition title_case :: "string \<Rightarrow> string" where
  "title_case s = title_from False s"

text \<open>\<open>s.replace("-", " ")\<close>.\<close>

definition replace_hyphens :: "string \<Rightarrow> string" where
  "replace_hyphens s = map (\<lambda>c. if c = CHR ''-'' then CHR '' '' else c) s"

text \<open>\<open>s.startswith(p)\<close> is \<^const>\<open>prefix\<close>; \<open>sub in s\<close> is \<open>contains sub s\<close>.\<close>

fun contains :: "string \<Rightarrow> string \<Rightarrow> bool" where
  "contains sub [] = (sub = [])"
| "contains sub (c # cs) = (prefix sub (c # cs) \<or> contains sub cs)"

text \<open>\<open>s.strip()\<close> and \<open>s.strip("/")\<close>.\<close>

definition strip_by :: "(char \<Rightarrow> bool) \<Rightarrow> string \<Rightarrow> string" where
  "strip_by P s = rev (dropWhile P (rev (dropWhile P s)))"

definition strip :: "string \<Rightarrow> string" where
  "strip s = strip_by is_space s"

text \<open>
  \<open>re.sub(r"\s+", " ", s)\<close>: every maximal run of whitespace becomes one blank.
\<close>

function collapse_ws :: "string \<Rightarrow> string" where
  "collapse_ws [] = []"
| "collapse_ws (c # cs) =
     (if is_space c then CHR '' '' # collapse_ws (dropWhile is_space cs)
      else c # collapse_ws cs)"
  by pat_completeness auto
termination
  by (relation "measure length") (auto simp: length_dropWhile_le less_Suc_eq_le)

text \<open>\<open>norm_space(s)\<close>; the argument may be \<open>None\<close> (\<open>s or ""\<close>).\<close>

definition norm_space :: "string option \<Rightarrow> string" where
  "norm_space s = strip (collapse_ws (case s of None \<Rightarrow> [] | Some t \<Rightarrow> t))"

text \<open>\<open>int(digits)\<close> for a string of decimal digits.\<close>

definition digit_val :: "char \<Rightarrow> int" where
  "digit_val c = (case map_of (zip ''0123456789'' [0, 1, 2, 3, 4, 5, 6, 7, 8, 9]) c of
                    Some d \<Rightarrow> d | None \<Rightarrow> 0)"

definition int_of_digits :: "string \<Rightarrow> int" where
  "int_of_digits ds = foldl (\<lambda>n c. 10 * n + digit_val c) 0 ds"

text \<open>\<open>to_int_money\<close>: keep the digits, parse them; \<open>None\<close> when there is none.\<close>

definition to_int_money :: "string option \<Rightarrow> int option" where
  "to_int_money txt =
     (case txt of
        None \<Rightarrow> None
      | Some t \<Rightarrow>
          if t = [] then None
          else (let digits = filter is_digit t
                in if digits = [] then None else Some (int_of_digits digits)))"

text \<open>\<open>to_int\<close>: the first run of digits (\<open>re.search(r"\d+", txt)\<close>).\<close>

definition to_int :: "string option \<Rightarrow> int option" where
  "to_int txt =
     (case txt of
        None \<Rightarrow> None
      | Some t \<Rightarrow>
          if t = [] then None
          else (let ds = takeWhile is_digit (dropWhile (\<lambda>c. \<not> is_digit c) t)
                in if ds = [] then None else Some (int_of_digits ds)))"

text \<open>\<open>make_abs\<close>.\<close>

definition site_root :: string where
  "site_root = ''https://www.huizemark.com''"

definition make_abs :: "string \<Rightarrow> string" where
  "make_abs url =
     (if prefix ''http'' url then url
      else if prefix ''/'' url then site_root @ url
      else site_root @ ''/'' @ url)"

section \<open>Regular expressions\<close>

text \<open>
  The patterns of the source use literals, character classes, greedy repetition of a
  class, greedy optional parts, alternation, capture groups, \<open>\b\<close> and \<open>$\<close>. The
  matcher below is Python's backtracking matcher on that fragment: from a state (the
  character before the position, the rest of the input, the groups bound so far) it
  returns every way to match, in the order in which backtracking tries them, so the head
  of the list is the match Python reports.
\<close>

datatype regex =
    Eps
  | Chr char
  | Cls "char \<Rightarrow> bool"
  | Seq regex regex
  | Alt regex regex
  | Opt regex
  | Rep "char \<Rightarrow> bool" nat "nat option"
  | Grp nat regex
  | WordB
  | EndA

type_synonym groups = "(nat \<times> string) list"

type_synonym rstate = "char option \<times> string \<times> groups"

text \<open>
  \<open>Rep P m n\<close> is \<open>[P]{m,n}\<close> (\<open>n = None\<close>: no upper bound), greedy: the longest run
  first, then shorter ones down to \<open>m\<close> characters.
\<close>

fun rep_states :: "(char \<Rightarrow> bool) \<Rightarrow> nat \<Rightarrow> nat option \<Rightarrow> char option \<Rightarrow> string \<Rightarrow> groups
    \<Rightarrow> rstate list" where
  "rep_states P m n p [] g = (if m = 0 then [(p, [], g)] else [])"
| "rep_states P m n p (c # cs) g =
     (if P c \<and> n \<noteq> Some 0
      then rep_states P (m - 1) (map_option (\<lambda>k. k - 1) n) (Some c) cs g
      else [])
     @ (if m = 0 then [(p, c # cs, g)] else [])"

definition word_before :: "char option \<Rightarrow> bool" where
  "word_before p = (case p of None \<Rightarrow> False | Some c \<Rightarrow> is_word c)"

definition word_after :: "string \<Rightarrow> bool" where
  "word_after s = (case s of [] \<Rightarrow> False | c # _ \<Rightarrow> is_word c)"

text \<open>
  \<open>ic\<close> is the \<open>re.I\<close> flag. It only changes literals: every class of the source
  is closed under ASCII case. \<open>$\<close> (without \<open>re.M\<close>) matches at the end of the input
  and before a final newline.
\<close>

fun rx :: "bool \<Rightarrow> regex \<Rightarrow> rstate \<Rightarrow> rstate list" where
  "rx ic Eps st = [st]"
| "rx ic (Chr c) (p, s, g) =
     (case s of
        [] \<Rightarrow> []
      | x # xs \<Rightarrow>
          if (if ic then lower_char x = lower_char c else x = c) then [(Some x, xs, g)]
          else [])"
| "rx ic (Cls P) (p, s, g) =
     (case s of [] \<Rightarrow> [] | x # xs \<Rightarrow> if P x then [(Some x, xs, g)] else [])"
| "rx ic (Seq a b) st = concat (map (rx ic b) (rx ic a st))"
| "rx ic (Alt a b) st = rx ic a st @ rx ic b st"
| "rx ic (Opt a) st = rx ic a st @ [st]"
| "rx ic (Rep P m n) (p, s, g) = rep_states P m n p s g"
| "rx ic (Grp i a) (p, s, g) =
     map (\<lambda>(p', s', g'). (p', s', (i, take (length s - length s') s) # g'))
       (rx ic a (p, s, g))"
| "rx ic WordB (p, s, g) = (if word_before p \<noteq> word_after s then [(p, s, g)] else [])"
| "rx ic EndA (p, s, g) = (if s = [] \<or> s = [CHR 0x0A] then [(p, s, g)] else [])"

text \<open>A literal word.\<close>

definition lit :: "string \<Rightarrow> regex" where
  "lit s = foldr (\<lambda>c r. Seq (Chr c) r) s Eps"

text \<open>A sequence of parts.\<close>

definition seqs :: "regex list \<Rightarrow> regex" where
  "seqs rs = foldr Seq rs Eps"

text \<open>
  A match object: group 0 is the matched text, the other groups are those bound on the
  successful path. \<open>group m k\<close> is \<open>m.group(k)\<close>; in every pattern of the source the
  group that is read takes part in every match.
\<close>

definition match_at :: "bool \<Rightarrow> regex \<Rightarrow> char option \<Rightarrow> string \<Rightarrow> groups option" where
  "match_at ic r p s =
     (case rx ic r (p, s, []) of
        [] \<Rightarrow> None
      | (_, s', g) # _ \<Rightarrow> Some ((0, take (length s - length s') s) # g))"

definition group :: "groups \<Rightarrow> nat \<Rightarrow> string" where
  "group m k = (case map_of m k of Some t \<Rightarrow> t | None \<Rightarrow> [])"

text \<open>\<open>pattern.search(s)\<close>: the match at the leftmost position that has one.\<close>

fun search_from :: "bool \<Rightarrow> regex \<Rightarrow> char option \<Rightarrow> string \<Rightarrow> groups option" where
  "search_from ic r p [] = match_at ic r p []"
| "search_from ic r p (c # cs) =
     (case match_at ic r p (c # cs) of
        Some m \<Rightarrow> Some m
      | None \<Rightarrow> search_from ic r (Some c) cs)"

definition re_search :: "bool \<Rightarrow> regex \<Rightarrow> string \<Rightarrow> groups option" where
  "re_search ic r s = search_from ic r None s"

text \<open>
  \<open>pattern.finditer(s)\<close>: the non-overlapping matches from left to right; \<open>skip\<close>
  counts the characters of the last match still to be passed. The patterns iterated
  by the source match at least one character.
\<close>

fun finditer_from :: "bool \<Rightarrow> regex \<Rightarrow> nat \<Rightarrow> char option \<Rightarrow> string \<Rightarrow> groups list" where
  "finditer_from ic r skip p [] =
     (if skip = 0 then (case match_at ic r p [] of None \<Rightarrow> [] | Some m \<Rightarrow> [m]) else [])"
| "finditer_from ic r skip p (c # cs) =
     (if 0 < skip then finditer_from ic r (skip - 1) (Some c) cs
      else (case match_at ic r p (c # cs) of
              None \<Rightarrow> finditer_from ic r 0 (Some c) cs
            | Some m \<Rightarrow> m # finditer_from ic r (length (group m 0) - 1) (Some c) cs))"

definition re_finditer :: "bool \<Rightarrow> regex \<Rightarrow> string \<Rightarrow> groups list" where
  "re_finditer ic r s = finditer_from ic r 0 None s"

subsection \<open>The patterns of the source\<close>

definition not_slash :: "char \<Rightarrow> bool" where
  "not_slash c = (c \<noteq> CHR ''/'')"

text \<open>\<open>^https?://[^/]+\<close>, tried at the start of the URL only.\<close>

definition ORIGIN_RE :: regex where
  "ORIGIN_RE = seqs [lit ''http'', Opt (Chr CHR ''s''), lit ''://'', Rep not_slash 1 None]"

definition money_char :: "char \<Rightarrow> bool" where
  "money_char c = (is_digit c \<or> is_space c \<or> c \<in> set '',.'' \<or> c = CHR 0x27)"

text \<open>\<open>MONEY_RE = (R\s*[\d\s,.']+)\<close>, \<open>re.I\<close>.\<close>

definition MONEY_RE :: regex where
  "MONEY_RE = Grp 1 (seqs [Chr CHR ''R'', Rep is_space 0 None, Rep money_char 1 None])"

definition label_sep :: "char \<Rightarrow> bool" where
  "label_sep c = (c \<in> set '':-'')"

text \<open>\<open>BEDS_LABEL_RE = (Bedrooms?|Beds?)\s*[:\-]?\s*(\d+)\<close>, \<open>re.I\<close>.\<close>

definition BEDS_LABEL_RE :: regex where
  "BEDS_LABEL_RE =
     seqs [Grp 1 (Alt (Seq (lit ''Bedroom'') (Opt (Chr CHR ''s'')))
                      (Seq (lit ''Bed'') (Opt (Chr CHR ''s'')))),
           Rep is_space 0 None, Opt (Cls label_sep), Rep is_space 0 None,
           Grp 2 (Rep is_digit 1 None)]"

text \<open>\<open>BEDS_WORD_RE = (\d+)\s*bed(?:room)?s?\b\<close>, \<open>re.I\<close>.\<close>

definition BEDS_WORD_RE :: regex where
  "BEDS_WORD_RE =
     seqs [Grp 1 (Rep is_digit 1 None), Rep is_space 0 None, lit ''bed'',
           Opt (lit ''room''), Opt (Chr CHR ''s''), WordB]"

text \<open>\<open>REF_RL_RE = \b(RL\d{3,})\b\<close>, \<open>re.I\<close>.\<close>

definition REF_RL_RE :: regex where
  "REF_RL_RE = seqs [WordB, Grp 1 (Seq (lit ''RL'') (Rep is_digit 3 None)), WordB]"

text \<open>\<open>REF_NUMERIC_RE = \b(\d{5,})\b\<close>.\<close>

definition REF_NUMERIC_RE :: regex where
  "REF_NUMERIC_RE = seqs [WordB, Grp 1 (Rep is_digit 5 None), WordB]"

definition ref_sep :: "char \<Rightarrow> bool" where
  "ref_sep c = (c \<in> set '':#-'')"

text \<open>
  \<open>(?:Web\s*Ref(?:erence)?|Ref(?:erence)?(?:\s*No\.?)?)\<close>, the label shared by
  \<open>REF_LABELLED_RE\<close> and the pattern of the numeric-window step.
\<close>

definition ref_label :: regex where
  "ref_label =
     Alt (seqs [lit ''Web'', Rep is_space 0 None, lit ''Ref'', Opt (lit ''erence'')])
         (seqs [lit ''Ref'', Opt (lit ''erence''),
                Opt (seqs [Rep is_space 0 None, lit ''No'', Opt (Chr CHR ''.'')])])"

text \<open>\<open>([A-Za-z]{0,3}\d{5,}|\d{5,})\<close>.\<close>

definition ref_code :: regex where
  "ref_code =
     Grp 1 (Alt (Seq (Rep is_alpha 0 (Some 3)) (Rep is_digit 5 None)) (Rep is_digit 5 None))"

text \<open>
  \<open>REF_LABELLED_RE\<close>, \<open>re.I\<close>: label, \<open>\s*\<close>, an optional separator from
  \<open>[:#\-]\<close> (and U+00A0), \<open>\s*\<close>, the code.
\<close>

definition REF_LABELLED_RE :: regex where
  "REF_LABELLED_RE =
     seqs [ref_label, Rep is_space 0 None, Opt (Cls ref_sep), Rep is_space 0 None, ref_code]"

text \<open>The pattern of the numeric-window step of \<open>extract_ref\<close>, separator \<open>[:#-]\<close>, \<open>re.I\<close>.\<close>

definition REF_WINDOW_RE :: regex where
  "REF_WINDOW_RE =
     seqs [ref_label, Rep is_space 0 None, Opt (Cls ref_sep), Rep is_space 0 None, ref_code]"

definition not_newline :: "char \<Rightarrow> bool" where
  "not_newline c = (c \<noteq> CHR 0x0A)"

text \<open>\<open>AGENT_NAME_RE = \bblessing\b.*\bnsibande\b\<close>, \<open>re.I\<close>.\<close>

definition AGENT_NAME_RE :: regex where
  "AGENT_NAME_RE =
     seqs [WordB, lit ''blessing'', WordB, Rep not_newline 0 None,
           WordB, lit ''nsibande'', WordB]"

text \<open>\<open>/(\d{5,})(?:/|$)\<close>, the pattern of \<open>last_numeric_segment_from_url\<close>.\<close>

definition URL_ID_RE :: regex where
  "URL_ID_RE = seqs [Chr CHR ''/'', Grp 1 (Rep is_digit 5 None), Alt (Chr CHR ''/'') EndA]"

section \<open>URL utilities (fetch_stock.py)\<close>

text \<open>\<open>re.sub(r"^https?://[^/]+", "", url)\<close>: the pattern can only match at position 0.\<close>

definition strip_origin :: "string \<Rightarrow> string" where
  "strip_origin u = (case rx False ORIGIN_RE (None, u, []) of [] \<Rightarrow> u | (_, rest, _) # _ \<Rightarrow> rest)"

text \<open>\<open>re.split(r"/+", path)\<close>.\<close>

function split_slashes :: "string \<Rightarrow> string list" where
  "split_slashes s =
     (let seg = takeWhile not_slash s; rest = dropWhile not_slash s
      in if rest = [] then [seg]
         else seg # split_slashes (dropWhile (\<lambda>c. c = CHR ''/'') rest))"
  by pat_completeness auto
termination
proof (relation "measure length")
  show "wf (measure length)"
    by simp
next
  fix s seg rest
  assume rest: "rest = dropWhile not_slash s" and nonempty: "rest \<noteq> []"
  obtain c cs where split: "rest = c # cs"
    using nonempty by (cases rest) auto
  have "\<not> not_slash (hd rest)"
    using hd_dropWhile [of not_slash s] nonempty rest by simp
  then have "c = CHR ''/''"
    using split by (simp add: not_slash_def)
  then have "length (dropWhile (\<lambda>c. c = CHR ''/'') rest) \<le> length cs"
    using split by (simp add: length_dropWhile_le)
  also have "length cs < length rest"
    using split by simp
  also have "length rest \<le> length s"
    using rest by (simp add: length_dropWhile_le)
  finally show "(dropWhile (\<lambda>c. c = CHR ''/'') rest, s) \<in> measure length"
    by simp
qed

declare split_slashes.simps [simp del]

text \<open>The list \<open>parts\<close> of \<open>parse_location_from_url\<close> and \<open>property_type_from_url\<close>.\<close>

definition url_parts :: "string \<Rightarrow> string list" where
  "url_parts u = split_slashes (strip_by (\<lambda>c. c = CHR ''/'') (strip_origin u))"

text \<open>\<open>parts.index(x)\<close> for an \<open>x\<close> that occurs in \<open>parts\<close>.\<close>

definition index_of :: "'a \<Rightarrow> 'a list \<Rightarrow> nat" where
  "index_of x xs = length (takeWhile (\<lambda>y. y \<noteq> x) xs)"

text \<open>
  The index \<open>i\<close> both functions compute: the first \<open>for-sale\<close> segment if there is
  one, else the first \<open>to-let\<close> segment, else the function returns \<open>None\<close>.
\<close>

definition listing_index :: "string list \<Rightarrow> nat option" where
  "listing_index parts =
     (if ''for-sale'' \<in> set parts then Some (index_of ''for-sale'' parts)
      else if ''to-let'' \<in> set parts then Some (index_of ''to-let'' parts)
      else None)"

definition parse_location_from_url :: "string \<Rightarrow> string option" where
  "parse_location_from_url u =
     (let parts = url_parts u
      in case listing_index parts of
           None \<Rightarrow> None
         | Some i \<Rightarrow>
             if length parts > i + 2
             then Some (title_case (replace_hyphens (parts ! (i + 2))))
             else None)"

definition property_type_from_url :: "string \<Rightarrow> string option" where
  "property_type_from_url u =
     (let parts = url_parts u
      in case listing_index parts of
           None \<Rightarrow> None
         | Some i \<Rightarrow> if length parts > i + 3 then Some (lower (parts ! (i + 3))) else None)"

definition last_numeric_segment_from_url :: "string \<Rightarrow> string option" where
  "last_numeric_segment_from_url u =
     (case re_search False URL_ID_RE u of None \<Rightarrow> None | Some m \<Rightarrow> Some (group m 1))"

section \<open>Parsed documents\<close>

text \<open>
  \<open>json.loads\<close> values. A float is a finite rational, an infinity or NaN (the parser
  accepts \<open>NaN\<close>, \<open>Infinity\<close> and numbers that overflow). A dict is an association
  list in insertion order.
\<close>

datatype pyfloat = Finite rat | PosInf | NegInf | NaN

datatype json =
    JNull
  | JBool bool
  | JInt int
  | JFloat pyfloat
  | JStr string
  | JList "json list"
  | JDict "(string \<times> json) list"

text \<open>\<open>flatten_json\<close>: every dict of the tree, depth first.\<close>

fun flatten_json :: "json \<Rightarrow> (string \<times> json) list list" where
  "flatten_json (JDict kvs) = kvs # concat (map (\<lambda>kv. flatten_json (snd kv)) kvs)"
| "flatten_json (JList vs) = concat (map flatten_json vs)"
| "flatten_json _ = []"

text \<open>\<open>node.get(key)\<close>; Python's \<open>None\<close> is \<^const>\<open>JNull\<close>.\<close>

definition jget :: "(string \<times> json) list \<Rightarrow> string \<Rightarrow> json" where
  "jget node k = (case map_of node k of Some v \<Rightarrow> v | None \<Rightarrow> JNull)"

text \<open>Truth value of a JSON value (for \<open>a or b\<close>).\<close>

fun truthy :: "json \<Rightarrow> bool" where
  "truthy JNull = False"
| "truthy (JBool b) = b"
| "truthy (JInt n) = (n \<noteq> 0)"
| "truthy (JFloat f) = (f \<noteq> Finite 0)"
| "truthy (JStr s) = (s \<noteq> [])"
| "truthy (JList vs) = (vs \<noteq> [])"
| "truthy (JDict kvs) = (kvs \<noteq> [])"

text \<open>
  An element returned by \<open>select_one\<close>: its tag name, its \<open>content\<close> attribute and
  \<open>get_text(" ", strip=True)\<close>.
\<close>

record element =
  tag_name :: string
  content :: "string option"
  el_text :: string

text \<open>
  What the scraper reads of a fetched, parsed page:
  \<^item> \<open>anchors\<close>: the \<open>href\<close> of every \<open>a\<close> element that has one, in document order;
  \<^item> \<open>jsonld\<close>: the values \<open>iter_jsonld\<close> yields (blocks that fail to parse are skipped);
  \<^item> \<open>select_one\<close>: the first element matching a CSS selector;
  \<^item> \<open>title_tag\<close>: \<open>soup.title.get_text(" ", strip=True)\<close>, if there is a title element;
  \<^item> \<open>full_text\<close>: \<open>soup.get_text(" ", strip=True)\<close>;
  \<^item> \<open>next_link\<close>: the result of \<open>find_next_link\<close> on the page's HTML.
  The HTML parser and the selector engine are libraries; no relation between the
  fields is assumed.
\<close>

record page =
  anchors :: "string list"
  jsonld :: "json list"
  select_one :: "string \<Rightarrow> element option"
  title_tag :: "string option"
  full_text :: string
  next_link :: "string option"

text \<open>The first result of a cascade: \<open>for x in xs: ... return\<close>.\<close>

fun first_some :: "('a \<Rightarrow> 'b option) \<Rightarrow> 'a list \<Rightarrow> 'b option" where
  "first_some f [] = None"
| "first_some f (x # xs) = (case f x of Some y \<Rightarrow> Some y | None \<Rightarrow> first_some f xs)"

text \<open>The dicts \<open>for data in iter_jsonld(soup): for node in flatten_json(data)\<close> visits.\<close>

definition jsonld_nodes :: "page \<Rightarrow> (string \<times> json) list list" where
  "jsonld_nodes pg = concat (map flatten_json (jsonld pg))"

section \<open>Ownership\<close>

definition AGENT_URL_SNIPPETS :: "string list" where
  "AGENT_URL_SNIPPETS = [''/agents/blessing-nsibande/75570/'', ''/results/agent/75570/'']"

definition residential_fragment :: string where
  "residential_fragment = ''/results/residential/''"

text \<open>On a string; the callers' \<open>isinstance(..., str)\<close> tests are in \<open>json_url_points\<close>.\<close>

definition any_url_points_to_agent :: "string \<Rightarrow> bool" where
  "any_url_points_to_agent url_val = (\<exists>snippet \<in> set AGENT_URL_SNIPPETS. contains snippet (lower url_val))"

definition any_name_is_agent :: "string \<Rightarrow> bool" where
  "any_name_is_agent name_val = (re_search True AGENT_NAME_RE name_val \<noteq> None)"

definition json_url_points :: "json \<Rightarrow> bool" where
  "json_url_points v = (case v of JStr s \<Rightarrow> any_url_points_to_agent s | _ \<Rightarrow> False)"

definition json_name_is_agent :: "json \<Rightarrow> bool" where
  "json_name_is_agent v = (case v of JStr s \<Rightarrow> any_name_is_agent s | _ \<Rightarrow> False)"

text \<open>The two inner loops of the JSON-LD step, for one node.\<close>

definition node_signals_agent :: "(string \<times> json) list \<Rightarrow> bool" where
  "node_signals_agent node =
     ((\<exists>key \<in> set [''url'', ''@id'', ''sameAs''].
         case jget node key of
           JStr s \<Rightarrow> any_url_points_to_agent s
         | JList xs \<Rightarrow> (\<exists>x \<in> set xs. json_url_points x)
         | _ \<Rightarrow> False)
      \<or> (\<exists>key \<in> set [''name'', ''agent'', ''seller'', ''brand'', ''author''].
         case jget node key of
           JStr s \<Rightarrow> any_name_is_agent s
         | JDict d \<Rightarrow> json_name_is_agent (jget d ''name'') \<or> json_url_points (jget d ''url'')
         | _ \<Rightarrow> False))"

text \<open>\<open>get_meta_content(soup, prop)\<close>.\<close>

definition get_meta_content :: "page \<Rightarrow> string \<Rightarrow> string option" where
  "get_meta_content pg prop =
     (case select_one pg (''meta[property='' @ [CHR 0x27] @ prop @ [CHR 0x27] @ '']'') of
        None \<Rightarrow> None
      | Some tag \<Rightarrow>
          (case content tag of None \<Rightarrow> None | Some c \<Rightarrow> if c = [] then None else Some c))"

definition verify_agent_ownership :: "page \<Rightarrow> string \<Rightarrow> bool" where
  "verify_agent_ownership pg txt =
     ((\<exists>href \<in> set (anchors pg).
         contains ''/agents/blessing-nsibande/75570/'' (lower href)
         \<or> contains ''/results/agent/75570/'' (lower href))
      \<or> (\<exists>node \<in> set (jsonld_nodes pg). node_signals_agent node)
      \<or> any_url_points_to_agent
           (lower (case get_meta_content pg ''og:url'' of None \<Rightarrow> [] | Some c \<Rightarrow> c))
      \<or> (\<exists>snippet \<in> set AGENT_URL_SNIPPETS. contains snippet (lower txt))
      \<or> (any_name_is_agent txt \<and> contains residential_fragment (lower txt)))"

section \<open>Field extractors (fetch_stock.py)\<close>

text \<open>\<open>if p:\<close> for an \<open>Optional[int]\<close>: neither \<open>None\<close> nor zero.\<close>

definition nonzero :: "int option \<Rightarrow> bool" where
  "nonzero p = (case p of None \<Rightarrow> False | Some n \<Rightarrow> n \<noteq> 0)"

text \<open>The price read from the \<open>meta[itemprop='price']\<close> element.\<close>

definition price_from_meta :: "page \<Rightarrow> int option" where
  "price_from_meta pg =
     (case select_one pg (''meta[itemprop='' @ [CHR 0x27] @ ''price'' @ [CHR 0x27] @ '']'') of
        None \<Rightarrow> None
      | Some meta_price \<Rightarrow>
          (case content meta_price of
             None \<Rightarrow> None
           | Some c \<Rightarrow>
               if c = [] then None
               else (let p = to_int_money (Some c) in if nonzero p then p else None)))"

definition PRICE_SELECTORS :: "string list" where
  "PRICE_SELECTORS =
     [''.price'', ''.property-price'', ''[class*='' @ [CHR 0x27] @ ''price'' @ [CHR 0x27] @ '']'']"

text \<open>The price read from the first price block whose text parses to a non-zero number.\<close>

definition price_from_blocks :: "page \<Rightarrow> int option" where
  "price_from_blocks pg =
     first_some
       (\<lambda>sel. case select_one pg sel of
                None \<Rightarrow> None
              | Some n \<Rightarrow> (let p = to_int_money (Some (el_text n)) in if nonzero p then p else None))
       PRICE_SELECTORS"

text \<open>The last step: \<open>m = MONEY_RE.search(text); if m: return to_int_money(m.group(1))\<close>.\<close>

definition price_from_text :: "string \<Rightarrow> int option" where
  "price_from_text txt =
     (case re_search True MONEY_RE txt of None \<Rightarrow> None | Some m \<Rightarrow> to_int_money (Some (group m 1)))"

definition extract_price :: "page \<Rightarrow> string \<Rightarrow> int option" where
  "extract_price pg txt =
     (case price_from_meta pg of
        Some p \<Rightarrow> Some p
      | None \<Rightarrow>
          (case price_from_blocks pg of
             Some p \<Rightarrow> Some p
           | None \<Rightarrow> price_from_text txt))"

definition REF_SELECTORS :: "string list" where
  "REF_SELECTORS =
     [''[class*='' @ [CHR 0x27] @ ''ref'' @ [CHR 0x27] @ '']'', ''.property-ref'', ''.web-ref'']"

text \<open>\<open>a.search(t) or b.search(t) or c.search(t)\<close>.\<close>

definition ref_in_block :: "string \<Rightarrow> groups option" where
  "ref_in_block t =
     (case re_search True REF_LABELLED_RE t of
        Some m \<Rightarrow> Some m
      | None \<Rightarrow>
          (case re_search True REF_RL_RE t of
             Some m \<Rightarrow> Some m
           | None \<Rightarrow> re_search False REF_NUMERIC_RE t))"

text \<open>
  The fifth step: the first standalone number of five digits or more that is part of no
  money amount of the text. It is returned as it stands.
\<close>

definition ref_from_bare_number :: "string \<Rightarrow> string option" where
  "ref_from_bare_number txt =
     (let monies = map (\<lambda>m. group m 0) (re_finditer True MONEY_RE txt)
      in first_some
           (\<lambda>m. let seq = group m 1
                 in if \<not> (\<exists>mon \<in> set monies. contains seq mon) then Some seq else None)
           (re_finditer False REF_NUMERIC_RE txt))"

definition extract_ref :: "page \<Rightarrow> string \<Rightarrow> string \<Rightarrow> string option" where
  "extract_ref pg txt u =
     (case re_search True REF_LABELLED_RE txt of
        Some m \<Rightarrow> Some (upper (group m 1))
      | None \<Rightarrow>
     (case first_some
             (\<lambda>sel. case select_one pg sel of
                      None \<Rightarrow> None
                    | Some n \<Rightarrow>
                        (case ref_in_block (norm_space (Some (el_text n))) of
                           None \<Rightarrow> None
                         | Some m2 \<Rightarrow> Some (upper (group m2 1))))
             REF_SELECTORS of
        Some r \<Rightarrow> Some r
      | None \<Rightarrow>
     (case re_search True REF_RL_RE txt of
        Some m \<Rightarrow> Some (upper (group m 1))
      | None \<Rightarrow>
     (case first_some
             (\<lambda>window. let val = group window 1 in if val \<noteq> [] then Some (upper val) else None)
             (re_finditer True REF_WINDOW_RE txt) of
        Some r \<Rightarrow> Some r
      | None \<Rightarrow>
     (case ref_from_bare_number txt of
        Some seq \<Rightarrow> Some seq
      | None \<Rightarrow> last_numeric_segment_from_url u)))))"

subsection \<open>Bedrooms\<close>


definition TYPES_NO_BEDS :: "string set" where
  "TYPES_NO_BEDS =
     set [''vacant-land'', ''land'', ''plot'', ''farm'', ''smallholding'',
          ''commercial'', ''industrial'', ''office'', ''retail'', ''warehouse'',
          ''development'', ''site'', ''stand'']"

text \<open>The exceptions \<open>int(val)\<close> raises on a float that is not finite.\<close>

datatype py_error = ValueError | OverflowError | HTTPError

text \<open>\<open>int(q)\<close> truncates towards zero.\<close>

definition int_of_rat :: "rat \<Rightarrow> int" where
  "int_of_rat q = (if 0 \<le> q then \<lfloor>q\<rfloor> else \<lceil>q\<rceil>)"

text \<open>
  One \<open>val = node.get(key)\<close> of the JSON-LD step: \<open>None\<close> when neither \<open>if\<close> fires
  and the loop goes on, \<open>Some (Inr r)\<close> when the function returns \<open>r\<close>,
  \<open>Some (Inl e)\<close> when \<open>int(val)\<close> raises. A bool is an \<open>int\<close> in Python.
\<close>

fun beds_of_value :: "json \<Rightarrow> (py_error + int option) option" where
  "beds_of_value (JBool b) = Some (Inr (Some (if b then 1 else 0)))"
| "beds_of_value (JInt n) = (if n \<ge> 0 then Some (Inr (Some n)) else None)"
| "beds_of_value (JFloat (Finite q)) =
     (if int_of_rat q \<ge> 0 then Some (Inr (Some (int_of_rat q))) else None)"
| "beds_of_value (JFloat NaN) = Some (Inl ValueError)"
| "beds_of_value (JFloat PosInf) = Some (Inl OverflowError)"
| "beds_of_value (JFloat NegInf) = Some (Inl OverflowError)"
| "beds_of_value (JStr s) =
     (if \<exists>c \<in> set s. is_digit c then Some (Inr (to_int (Some s))) else None)"
| "beds_of_value _ = None"

definition beds_from_jsonld :: "page \<Rightarrow> (py_error + int option) option" where
  "beds_from_jsonld pg =
     first_some beds_of_value
       (concat (map (\<lambda>node. map (jget node) [''numberOfBedrooms'', ''numberOfRooms''])
                  (jsonld_nodes pg)))"

definition beds_from_label :: "string \<Rightarrow> int option" where
  "beds_from_label txt =
     (case re_search True BEDS_LABEL_RE txt of
        None \<Rightarrow> None
      | Some m \<Rightarrow> Some (int_of_digits (group m 2)))"

definition BED_SELECTORS :: "string list" where
  "BED_SELECTORS =
     [''[class*='' @ [CHR 0x27] @ ''bed'' @ [CHR 0x27] @ '']'', ''.icon-bed'', ''.beds'',
      ''.property-beds'']"

definition beds_from_blocks :: "page \<Rightarrow> int option" where
  "beds_from_blocks pg =
     first_some
       (\<lambda>sel. case select_one pg sel of None \<Rightarrow> None | Some n \<Rightarrow> to_int (Some (el_text n)))
       BED_SELECTORS"

definition beds_from_phrase :: "string \<Rightarrow> int option" where
  "beds_from_phrase txt =
     (case re_search True BEDS_WORD_RE txt of
        None \<Rightarrow> None
      | Some m \<Rightarrow> Some (int_of_digits (group m 1)))"

text \<open>\<open>extract_beds\<close>: the four steps in order, then the rule on the property type.\<close>

definition extract_beds :: "page \<Rightarrow> string \<Rightarrow> string \<Rightarrow> py_error + int option" where
  "extract_beds pg txt ptype =
     (case beds_from_jsonld pg of
        Some r \<Rightarrow> r
      | None \<Rightarrow>
     (case beds_from_label txt of
        Some n \<Rightarrow> Inr (Some n)
      | None \<Rightarrow>
     (case beds_from_blocks pg of
        Some v \<Rightarrow> Inr (Some v)
      | None \<Rightarrow>
     (case beds_from_phrase txt of
        Some n \<Rightarrow> Inr (Some n)
      | None \<Rightarrow> if ptype \<in> TYPES_NO_BEDS then Inr (Some 0) else Inr None))))"

section \<open>The item validator (fetch_stock.py)\<close>

text \<open>
  A catalog entry is a dict with the keys \<open>ref\<close>, \<open>title\<close>, \<open>url\<close>, \<open>price\<close>,
  \<open>beds\<close>, \<open>area\<close>; a field is \<open>None\<close> when the dict holds Python's \<open>None\<close>.
\<close>

record item =
  ref :: "string option"
  title :: "string option"
  url :: "string option"
  price :: "int option"
  beds :: "int option"
  area :: "string option"

text \<open>The dict \<open>skip_log\<close>; \<open>reason\<close> and \<open>property_type\<close> are absent until written.\<close>

record skip_log =
  log_url :: string
  reason :: "string option"
  property_type :: "string option"

definition TITLE_SELECTORS :: "string list" where
  "TITLE_SELECTORS =
     [''h1'', ''h1.property-title'', ''.property-title'', ''.title'',
      ''h1[itemprop='' @ [CHR 0x27] @ ''name'' @ [CHR 0x27] @ '']'',
      ''meta[property='' @ [CHR 0x27] @ ''og:title'' @ [CHR 0x27] @ '']'']"

text \<open>
  \<open>n["content"] if (n.name == "meta" and n.get("content")) else n.get_text(" ", strip=True)\<close>
\<close>

definition title_source :: "element \<Rightarrow> string" where
  "title_source n =
     (case content n of
        Some c \<Rightarrow> if tag_name n = ''meta'' \<and> c \<noteq> [] then c else el_text n
      | None \<Rightarrow> el_text n)"

text \<open>
  The title block of the validator: the first selector that gives a non-empty normalised
  text, else the normalised text of the title element, else a value that is not truthy
  (here the empty string).
\<close>

definition detail_title :: "page \<Rightarrow> string" where
  "detail_title pg =
     (case first_some
             (\<lambda>sel. case select_one pg sel of
                      None \<Rightarrow> None
                    | Some n \<Rightarrow>
                        (let t = norm_space (Some (title_source n))
                         in if t \<noteq> [] then Some t else None))
             TITLE_SELECTORS of
        Some t \<Rightarrow> t
      | None \<Rightarrow> (case title_tag pg of None \<Rightarrow> [] | Some tt \<Rightarrow> norm_space (Some tt)))"

text \<open>
  \<open>extract_complete_item_from_detail\<close>. The parsed page stands for \<open>html\<close>; the
  function returns its result together with the \<open>skip_log\<close> it has written to, or the
  exception that \<open>extract_beds\<close> raised.
\<close>

definition extract_complete_item_from_detail ::
    "page \<Rightarrow> string \<Rightarrow> skip_log \<Rightarrow> py_error + (item option \<times> skip_log)" where
  "extract_complete_item_from_detail pg u slog =
     (let txt = full_text pg
      in if \<not> verify_agent_ownership pg txt
         then Inr (None, slog\<lparr>reason := Some ''not_owned_by_agent_75570''\<rparr>)
         else
           (let ptype = lower (case property_type_from_url u of None \<Rightarrow> [] | Some t \<Rightarrow> t);
                area_opt = parse_location_from_url u
            in case area_opt of
                 None \<Rightarrow> Inr (None, slog\<lparr>reason := Some ''missing_area''\<rparr>)
               | Some a \<Rightarrow>
                   if a = [] then Inr (None, slog\<lparr>reason := Some ''missing_area''\<rparr>)
                   else
                     (let t = detail_title pg
                      in if t = [] then Inr (None, slog\<lparr>reason := Some ''missing_title''\<rparr>)
                         else
                           (case extract_price pg txt of
                              None \<Rightarrow> Inr (None, slog\<lparr>reason := Some ''missing_price''\<rparr>)
                            | Some p \<Rightarrow>
                                (case extract_beds pg txt ptype of
                                   Inl e \<Rightarrow> Inl e
                                 | Inr None \<Rightarrow>
                                     Inr (None,
                                       slog\<lparr>reason := Some ''missing_beds_required_for_residential'',
                                           property_type :=
                                             Some (if ptype = [] then ''unknown'' else ptype)\<rparr>)
                                 | Inr (Some b) \<Rightarrow>
                                     (case extract_ref pg txt u of
                                        None \<Rightarrow> Inr (None, slog\<lparr>reason := Some ''missing_ref''\<rparr>)
                                      | Some r \<Rightarrow>
                                          if r = []
                                          then Inr (None, slog\<lparr>reason := Some ''missing_ref''\<rparr>)
                                          else Inr (Some \<lparr>ref = Some r, title = Some t,
                                                           url = Some u, price = Some p,
                                                           beds = Some b, area = Some a\<rparr>,
                                                    slog)))))))"

section \<open>The crawl (fetch_stock.py)\<close>

text \<open>
  The network: request number \<open>k\<close> of the run, to address \<open>u\<close>, returns a page or
  fails (\<open>fetch_html\<close> returns \<open>None\<close>; an empty body counts as a failure in every
  caller). Each request advances the counter, so the same address may answer differently
  each time.
\<close>

type_synonym net = "nat \<Rightarrow> string \<Rightarrow> page option"

definition MAX_PAGES :: nat where
  "MAX_PAGES = 20"

definition RESULTS_URL :: string where
  "RESULTS_URL = ''https://www.huizemark.com/results/agent/75570/''"

definition PROFILE_URL :: string where
  "PROFILE_URL = ''https://www.huizemark.com/agents/blessing-nsibande/75570/''"

text \<open>
  \<open>seen = set(); uniq = []; for x in xs: if key(x) not in seen: seen.add(key(x)); uniq.append(x)\<close>
\<close>

fun dedupe_by :: "('a \<Rightarrow> 'k) \<Rightarrow> 'a list \<Rightarrow> 'k set \<Rightarrow> 'a list \<Rightarrow> 'a list" where
  "dedupe_by key [] seen uniq = uniq"
| "dedupe_by key (x # xs) seen uniq =
     (if key x \<notin> seen then dedupe_by key xs (insert (key x) seen) (uniq @ [x])
      else dedupe_by key xs seen uniq)"

definition dedupe :: "string list \<Rightarrow> string list" where
  "dedupe us = dedupe_by (\<lambda>u. u) us {} []"

text \<open>\<open>soup.find_all("a", href=RESIDENTIAL_HREF_RE)\<close> followed by \<open>if not href: continue\<close>.\<close>

definition residential_hrefs :: "page \<Rightarrow> string list" where
  "residential_hrefs pg = filter (\<lambda>href. contains residential_fragment href \<and> href \<noteq> []) (anchors pg)"

definition parse_results_for_detail_urls :: "page \<Rightarrow> string list" where
  "parse_results_for_detail_urls pg =
     dedupe (filter (contains residential_fragment) (map make_abs (residential_hrefs pg)))"

text \<open>\<open>node.get("url") or node.get("@id")\<close>, kept when it is a string with the fragment.\<close>

definition node_detail_url :: "(string \<times> json) list \<Rightarrow> string option" where
  "node_detail_url node =
     (case (if truthy (jget node ''url'') then jget node ''url'' else jget node ''@id'') of
        JStr s \<Rightarrow> if contains residential_fragment s then Some s else None
      | _ \<Rightarrow> None)"

definition parse_profile_for_detail_urls :: "page \<Rightarrow> string list" where
  "parse_profile_for_detail_urls pg =
     dedupe (map make_abs (residential_hrefs pg)
             @ map make_abs (List.map_filter node_detail_url (jsonld_nodes pg)))"

text \<open>\<open>for u in urls: if u not in collected: collected.append(u)\<close>.\<close>

fun add_new :: "string list \<Rightarrow> string list \<Rightarrow> string list" where
  "add_new collected [] = collected"
| "add_new collected (u # us) =
     add_new (if u \<notin> set collected then collected @ [u] else collected) us"

text \<open>
  The loop of \<open>collect_from_results\<close>: \<open>cur\<close> is the variable \<open>url\<close> (\<open>None\<close> once
  there is no next link). It returns \<open>collected\<close> and the request counter.
\<close>

function results_loop ::
    "net \<Rightarrow> nat \<Rightarrow> string option \<Rightarrow> nat \<Rightarrow> string list \<Rightarrow> string list \<times> nat" where
  "results_loop nt k cur pages collected =
     (case cur of
        None \<Rightarrow> (collected, k)
      | Some u \<Rightarrow>
          if u = [] \<or> \<not> pages < MAX_PAGES then (collected, k)
          else
            (case nt k u of
               None \<Rightarrow> (collected, Suc k)
             | Some pg \<Rightarrow>
                 results_loop nt (Suc k)
                   (case next_link pg of
                      None \<Rightarrow> None
                    | Some nxt \<Rightarrow> if nxt = [] then None else Some (make_abs nxt))
                   (Suc pages)
                   (add_new collected (parse_results_for_detail_urls pg))))"
  by pat_completeness auto
termination
  by (relation "measure (\<lambda>(nt, k, cur, pages, collected). MAX_PAGES - pages)") auto

declare results_loop.simps [simp del]

definition collect_from_results :: "net \<Rightarrow> nat \<Rightarrow> string list \<times> nat" where
  "collect_from_results nt k = results_loop nt k (Some RESULTS_URL) 0 []"

definition collect_from_profile :: "net \<Rightarrow> nat \<Rightarrow> string list \<times> nat" where
  "collect_from_profile nt k =
     (case nt k PROFILE_URL of
        None \<Rightarrow> ([], Suc k)
      | Some pg \<Rightarrow> (parse_profile_for_detail_urls pg, Suc k))"

text \<open>\<open>merged\<close>: profile URLs first, first occurrences kept.\<close>

definition merged_urls :: "net \<Rightarrow> string list \<times> nat" where
  "merged_urls nt =
     (let (urls_profile, k1) = collect_from_profile nt 0;
          (urls_results, k2) = collect_from_results nt k1
      in (dedupe (urls_profile @ urls_results), k2))"

text \<open>
  The loop over \<open>merged\<close>: \<open>items\<close> and \<open>skipped\<close> grow by appending; an exception of
  the validator ends the run.
\<close>

fun detail_loop ::
    "net \<Rightarrow> nat \<Rightarrow> string list \<Rightarrow> item list \<Rightarrow> skip_log list
       \<Rightarrow> py_error + (item list \<times> skip_log list)" where
  "detail_loop nt k [] items skipped = Inr (items, skipped)"
| "detail_loop nt k (u # us) items skipped =
     (case nt k u of
        None \<Rightarrow>
          detail_loop nt (Suc k) us items
            (skipped @ [\<lparr>log_url = u, reason = Some ''detail_fetch_failed'',
                         property_type = None\<rparr>])
      | Some pg \<Rightarrow>
          (case extract_complete_item_from_detail pg u
                  \<lparr>log_url = u, reason = None, property_type = None\<rparr> of
             Inl e \<Rightarrow> Inl e
           | Inr (Some it, slog) \<Rightarrow> detail_loop nt (Suc k) us (items @ [it]) skipped
           | Inr (None, slog) \<Rightarrow> detail_loop nt (Suc k) us items (skipped @ [slog])))"

text \<open>\<open>x.get("price") or 0\<close> and \<open>x.get("title") or ""\<close>.\<close>

definition or_zero :: "int option \<Rightarrow> int" where
  "or_zero p = (case p of None \<Rightarrow> 0 | Some n \<Rightarrow> if n = 0 then 0 else n)"

definition or_empty :: "string option \<Rightarrow> string" where
  "or_empty t = (case t of None \<Rightarrow> [] | Some s \<Rightarrow> if s = [] then [] else s)"

definition sort_key_item :: "item \<Rightarrow> int \<times> string" where
  "sort_key_item x = (or_zero (price x), or_empty (title x))"

text \<open>
  \<open>xs.sort(key=f, reverse=True)\<close>: descending, and stable as Python's sort is: records
  with equal keys keep their order. (The list is reversed, sorted stably, reversed.)
\<close>

definition sort_desc :: "('a \<Rightarrow> 'k::linorder) \<Rightarrow> 'a list \<Rightarrow> 'a list" where
  "sort_desc f xs = rev (sort_key f (rev xs))"

text \<open>The step "De-duplicate and sort" of \<open>main\<close>.\<close>

definition final_catalog :: "item list \<Rightarrow> item list" where
  "final_catalog items = sort_desc sort_key_item (dedupe_by url items {} [])"

text \<open>\<open>main\<close>: the catalog written to \<open>listings.json\<close> and the list written to the debug file.\<close>

definition main :: "net \<Rightarrow> py_error + (item list \<times> skip_log list)" where
  "main nt =
     (let (merged, k) = merged_urls nt
      in case detail_loop nt k merged [] [] of
           Inl e \<Rightarrow> Inl e
         | Inr (items, skipped) \<Rightarrow> Inr (final_catalog items, skipped))"

section \<open>The results-only script (fetch_stock1.py)\<close>

text \<open>\<open>to_number\<close> is \<open>to_int_money\<close> under another name.\<close>

definition to_number :: "string option \<Rightarrow> int option" where
  "to_number txt = to_int_money txt"

text \<open>\<open>area_from_url\<close>: as \<open>parse_location_from_url\<close>, with one more branch.\<close>

definition area_from_url :: "string \<Rightarrow> string option" where
  "area_from_url u =
     (let parts = url_parts u
      in case listing_index parts of
           None \<Rightarrow> None
         | Some i \<Rightarrow>
             (let area_slug =
                    (if length parts > i + 2 then Some (parts ! (i + 2))
                     else if length parts > i + 1 then Some (parts ! (i + 1))
                     else None)
              in case area_slug of
                   None \<Rightarrow> None
                 | Some sl \<Rightarrow> if sl = [] then None else Some (title_case (replace_hyphens sl))))"

text \<open>
  An anchor: its \<open>href\<close>, its \<open>title\<close> attribute and the stripped, non-empty strings
  of its text, which \<open>get_text(strip=True)\<close> concatenates and
  \<open>get_text(" ", strip=True)\<close> joins with blanks.
\<close>

record anchor =
  href :: string
  a_title :: "string option"
  a_strings :: "string list"

definition join_blank :: "string list \<Rightarrow> string" where
  "join_blank ss = (case ss of [] \<Rightarrow> [] | t # ts \<Rightarrow> foldl (\<lambda>acc x. acc @ '' '' @ x) t ts)"

text \<open>
  A card: \<open>card.find("a", href=True)\<close> and \<open>card.get_text(" ", strip=True)\<close>.
\<close>

record card =
  first_anchor :: "anchor option"
  block_text :: string

text \<open>\<open>Price:\s*(R\s*[\d\s,.']+)\<close>, \<open>re.I\<close>.\<close>

definition PRICE_LABEL_RE :: regex where
  "PRICE_LABEL_RE = seqs [lit ''Price:'', Rep is_space 0 None, MONEY_RE]"

text \<open>\<open>(\d+)\s*bed(?:room)?s?\<close>, \<open>re.I\<close>.\<close>

definition BEDS_CARD_RE :: regex where
  "BEDS_CARD_RE =
     seqs [Grp 1 (Rep is_digit 1 None), Rep is_space 0 None, lit ''bed'',
           Opt (lit ''room''), Opt (Chr CHR ''s'')]"

definition colon_or_space :: "char \<Rightarrow> bool" where
  "colon_or_space c = (c = CHR '':'' \<or> is_space c)"

text \<open>
  \<open>\bWeb\s*Ref[:\s]*([A-Z]{1,3}\d{3,}|\d{5,})\b\<close>, \<open>re.I\<close> (so \<open>[A-Z]\<close> is any
  ASCII letter).
\<close>

definition WEB_REF_RE :: regex where
  "WEB_REF_RE =
     seqs [WordB, lit ''Web'', Rep is_space 0 None, lit ''Ref'', Rep colon_or_space 0 None,
           Grp 1 (Alt (Seq (Rep is_alpha 1 (Some 3)) (Rep is_digit 3 None)) (Rep is_digit 5 None)),
           WordB]"

text \<open>The \<open>url\<close> of a card: the anchor's \<open>href\<close> if it has the fragment, made absolute.\<close>

definition card_url :: "anchor option \<Rightarrow> string option" where
  "card_url a =
     (case a of
        None \<Rightarrow> None
      | Some an \<Rightarrow>
          if contains residential_fragment (href an)
          then Some (if prefix ''/'' (href an) then site_root @ href an else href an)
          else None)"

text \<open>The title of a card; \<open>None\<close> or the empty string when there is none.\<close>

definition card_title :: "anchor option \<Rightarrow> string option" where
  "card_title a =
     (case a of
        None \<Rightarrow> None
      | Some an \<Rightarrow>
          (let t1 = (case a_title an of
                       None \<Rightarrow> None
                     | Some t \<Rightarrow> if t = [] then None else Some (strip t))
           in if (t1 = None \<or> t1 = Some []) \<and> concat (a_strings an) \<noteq> []
              then Some (join_blank (a_strings an))
              else t1))"

definition card_price :: "string \<Rightarrow> int option" where
  "card_price txt =
     (case (case re_search True MONEY_RE txt of
              Some m \<Rightarrow> Some m
            | None \<Rightarrow> re_search True PRICE_LABEL_RE txt) of
        None \<Rightarrow> None
      | Some m_price \<Rightarrow> to_number (Some (group m_price 1)))"

definition card_beds :: "string \<Rightarrow> int option" where
  "card_beds txt =
     (case re_search True BEDS_CARD_RE txt of
        None \<Rightarrow> None
      | Some m_beds \<Rightarrow> Some (int_of_digits (group m_beds 1)))"

definition card_ref :: "string \<Rightarrow> string option" where
  "card_ref txt =
     (case re_search True REF_RL_RE txt of
        Some m_ref \<Rightarrow> Some (upper (group m_ref 1))
      | None \<Rightarrow>
          (case re_search True WEB_REF_RE txt of
             Some m_ref2 \<Rightarrow> Some (upper (group m_ref2 1))
           | None \<Rightarrow> None))"

text \<open>\<open>if x\<close> for an optional string.\<close>

definition nonempty :: "string option \<Rightarrow> bool" where
  "nonempty x = (case x of None \<Rightarrow> False | Some t \<Rightarrow> t \<noteq> [])"

definition extract_from_card :: "card \<Rightarrow> item option" where
  "extract_from_card c =
     (let a = first_anchor c;
          u = card_url a;
          t = card_title a;
          txt = block_text c;
          ar = (case u of None \<Rightarrow> None | Some v \<Rightarrow> if v = [] then None else area_from_url v)
      in if nonempty u \<and> nonempty t
         then Some \<lparr>ref = card_ref txt, title = t, url = u, price = card_price txt,
                     beds = card_beds txt, area = ar\<rparr>
         else None)"

text \<open>
  What \<open>extract_listings_from_html\<close> reads of a results page: the elements
  \<open>soup.select\<close> returns for the card selectors, every anchor with an \<open>href\<close>
  together with the ancestor two levels up (the \<open>parent\<close> of the fallback), and the
  next link.
\<close>

record listing_page =
  candidates :: "card list"
  page_anchors :: "(anchor \<times> card) list"
  next_href :: "string option"

text \<open>The item the fallback loop appends for one anchor.\<close>

definition fallback_item :: "anchor \<times> card \<Rightarrow> item" where
  "fallback_item ac =
     (case extract_from_card (snd ac) of
        Some it \<Rightarrow> it
      | None \<Rightarrow>
          (let a = fst ac;
               u = (if prefix ''/'' (href a) then site_root @ href a else href a);
               t = (case (case a_title a of
                            None \<Rightarrow> None
                          | Some tt \<Rightarrow> if tt = [] then None else Some tt) of
                      Some tt \<Rightarrow> tt
                    | None \<Rightarrow>
                        if join_blank (a_strings a) \<noteq> [] then join_blank (a_strings a)
                        else ''Huizemark Property'')
           in \<lparr>ref = None, title = Some t, url = Some u, price = None, beds = None,
                area = area_from_url u\<rparr>))"

definition extract_listings_from_html :: "listing_page \<Rightarrow> item list" where
  "extract_listings_from_html pg =
     (let cards = List.map_filter extract_from_card (candidates pg);
          cards' =
            (if cards = []
             then map fallback_item
                    (filter (\<lambda>ac. contains residential_fragment (href (fst ac))) (page_anchors pg))
             else cards)
      in dedupe_by url (filter (\<lambda>it. nonempty (url it)) cards') {} [])"

type_synonym net1 = "nat \<Rightarrow> string \<Rightarrow> listing_page option"

definition MAX_PAGES1 :: nat where
  "MAX_PAGES1 = 12"

text \<open>The address the loop of \<open>main\<close> computes from a next link.\<close>

definition next_url1 :: "string \<Rightarrow> string" where
  "next_url1 nxt =
     (if prefix ''/'' nxt then site_root @ nxt
      else if prefix ''http'' nxt then nxt
      else site_root @ ''/'' @ dropWhile (\<lambda>c. c = CHR ''/'') nxt)"

text \<open>
  The loop of \<open>main\<close> in fetch_stock1.py; a failed request raises
  (\<open>raise_for_status\<close>) and ends the run.
\<close>

function crawl1 :: "net1 \<Rightarrow> nat \<Rightarrow> string option \<Rightarrow> nat \<Rightarrow> item list \<Rightarrow> py_error + item list" where
  "crawl1 nt k cur pages all_items =
     (case cur of
        None \<Rightarrow> Inr all_items
      | Some u \<Rightarrow>
          if u = [] \<or> \<not> pages < MAX_PAGES1 then Inr all_items
          else
            (case nt k u of
               None \<Rightarrow> Inl HTTPError
             | Some pg \<Rightarrow>
                 crawl1 nt (Suc k)
                   (case next_href pg of
                      None \<Rightarrow> None
                    | Some nxt \<Rightarrow> if nxt = [] then None else Some (next_url1 nxt))
                   (Suc pages)
                   (all_items @ extract_listings_from_html pg)))"
  by pat_completeness auto
termination
  by (relation "measure (\<lambda>(nt, k, cur, pages, all_items). MAX_PAGES1 - pages)") auto

declare crawl1.simps [simp del]

text \<open>The steps "De-dupe" and "Sort by price desc if available" of that \<open>main\<close>.\<close>

definition final_catalog1 :: "item list \<Rightarrow> item list" where
  "final_catalog1 all_items =
     sort_desc (\<lambda>x. or_zero (price x))
       (dedupe_by url (filter (\<lambda>it. nonempty (url it)) all_items) {} [])"

definition main1 :: "net1 \<Rightarrow> py_error + item list" where
  "main1 nt =
     (case crawl1 nt 0 (Some RESULTS_URL) 0 [] of
        Inl e \<Rightarrow> Inl e
      | Inr all_items \<Rightarrow> Inr (final_catalog1 all_items))"

section \<open>Predicates of the statements\<close>

text \<open>No whitespace at either end.\<close>

definition trimmed :: "string \<Rightarrow> bool" where
  "trimmed t = (t = [] \<or> (\<not> is_space (hd t) \<and> \<not> is_space (last t)))"

text \<open>No two whitespace characters side by side.\<close>

fun no_adjacent_ws :: "string \<Rightarrow> bool" where
  "no_adjacent_ws (a # b # cs) = (\<not> (is_space a \<and> is_space b) \<and> no_adjacent_ws (b # cs))"
| "no_adjacent_ws _ = True"

text \<open>Every whitespace character is a blank, and is followed by none.\<close>

fun ws_normal :: "string \<Rightarrow> bool" where
  "ws_normal [] = True"
| "ws_normal [a] = (is_space a \<longrightarrow> a = CHR '' '')"
| "ws_normal (a # b # cs) =
     ((is_space a \<longrightarrow> a = CHR '' '' \<and> \<not> is_space b) \<and> ws_normal (b # cs))"


text \<open>
  The order of two catalog entries, the first before the second: descending price, and
  descending title among equal prices (a missing price is 0, a missing title is empty).
\<close>

definition by_price_then_title :: "item \<Rightarrow> item \<Rightarrow> bool" where
  "by_price_then_title a b =
     (or_zero (price b) < or_zero (price a)
      \<or> (or_zero (price b) = or_zero (price a) \<and> or_empty (title b) \<le> or_empty (title a)))"

text \<open>Descending price alone.\<close>

definition by_price :: "item \<Rightarrow> item \<Rightarrow> bool" where
  "by_price a b = (or_zero (price b) \<le> or_zero (price a))"


text \<open>The reason codes the validator writes.\<close>

definition VALIDATOR_REASONS :: "string list" where
  "VALIDATOR_REASONS =
     [''not_owned_by_agent_75570'', ''missing_area'', ''missing_title'', ''missing_price'',
      ''missing_beds_required_for_residential'', ''missing_ref'']"

text \<open>All six fields are resolved: four non-empty strings and two non-negative integers.\<close>

definition complete_item :: "item \<Rightarrow> bool" where
  "complete_item it =
     (nonempty (ref it) \<and> nonempty (title it) \<and> nonempty (url it) \<and> nonempty (area it)
      \<and> (case price it of None \<Rightarrow> False | Some p \<Rightarrow> 0 \<le> p)
      \<and> (case beds it of None \<Rightarrow> False | Some b \<Rightarrow> 0 \<le> b))"

text \<open>The \<open>ptype\<close> the validator passes to \<open>extract_beds\<close>.\<close>

definition detail_ptype :: "string \<Rightarrow> string" where
  "detail_ptype u = lower (case property_type_from_url u of None \<Rightarrow> [] | Some t \<Rightarrow> t)"

text \<open>A record that the validator returned for a page that the network served.\<close>

definition fetched_record :: "net \<Rightarrow> item \<Rightarrow> bool" where
  "fetched_record nt it =
     (\<exists>k u pg slog'. nt k u = Some pg
        \<and> extract_complete_item_from_detail pg u
              \<lparr>log_url = u, reason = None, property_type = None\<rparr> = Inr (Some it, slog'))"

text \<open>A skip record with one of the seven reason codes of the run.\<close>

definition skip_ok :: "skip_log \<Rightarrow> bool" where
  "skip_ok s = (\<exists>c \<in> set (''detail_fetch_failed'' # VALIDATOR_REASONS). reason s = Some c)"




text \<open>What every record of fetch_stock1.py has.\<close>

definition has_url_and_title :: "item \<Rightarrow> bool" where
  "has_url_and_title it = (nonempty (url it) \<and> nonempty (title it))"



section \<open>Example inputs\<close>

definition example_url :: string where
  "example_url =
     ''https://www.huizemark.com/results/residential/for-sale/sandton/sandton-central/house/123456/''"

text \<open>A detail page with an agent link, a heading, a JSON-LD bedroom count, a price and a reference.\<close>

definition example_page :: page where
  "example_page =
     \<lparr>anchors = [''/agents/blessing-nsibande/75570/''],
      jsonld = [JDict [(''numberOfBedrooms'', JInt 3)]],
      select_one =
        (\<lambda>sel. if sel = ''h1''
               then Some \<lparr>tag_name = ''h1'', content = None, el_text = ''Family   home''\<rparr>
               else None),
      title_tag = None,
      full_text = ''Family home R 1 250 000 Web Ref: ab12345'',
      next_link = None\<rparr>"

definition example_log :: skip_log where
  "example_log = \<lparr>log_url = example_url, reason = None, property_type = None\<rparr>"

definition example_item :: item where
  "example_item =
     \<lparr>ref = Some ''AB12345'', title = Some ''Family home'', url = Some example_url,
      price = Some 1250000, beds = Some 3, area = Some ''Sandton Central''\<rparr>"

text \<open>Two card records with the same price.\<close>

definition card_a :: item where
  "card_a =
     \<lparr>ref = None, title = Some ''Alpha'',
      url = Some ''https://www.huizemark.com/results/residential/for-sale/a/b/house/11111/'',
      price = Some 900000, beds = None, area = Some ''B''\<rparr>"

definition card_b :: item where
  "card_b =
     \<lparr>ref = None, title = Some ''Beta'',
      url = Some ''https://www.huizemark.com/results/residential/for-sale/a/b/house/22222/'',
      price = Some 900000, beds = None, area = Some ''B''\<rparr>"


definition tolet_url :: string where
  "tolet_url = ''https://www.huizemark.com/results/residential/to-let/pretoria/arcadia/flat/654321/''"

definition flat_url :: string where
  "flat_url = ''https://www.huizemark.com/results/residential/for-sale/sandton/morningside/flat/888888/''"

definition land_url :: string where
  "land_url =
     ''https://www.huizemark.com/results/residential/for-sale/soweto/orlando/vacant-land/777777/''"

text \<open>The example page without its agent link.\<close>

definition unowned_page :: page where
  "unowned_page = example_page\<lparr>anchors := []\<rparr>"

text \<open>The example page without its bedroom count.\<close>

definition bedless_page :: page where
  "bedless_page = example_page\<lparr>jsonld := []\<rparr>"

text \<open>The example page with a price text of zero.\<close>

definition zero_price_page :: page where
  "zero_price_page = example_page\<lparr>full_text := ''Family home R 0 Web Ref: ab12345''\<rparr>"

text \<open>A page for a piece of land: nothing on it speaks of bedrooms.\<close>

definition land_page :: page where
  "land_page =
     \<lparr>anchors = [''/agents/blessing-nsibande/75570/''],
      jsonld = [],
      select_one =
        (\<lambda>sel. if sel = ''h1''
               then Some \<lparr>tag_name = ''h1'', content = None, el_text = ''Vacant stand''\<rparr>
               else None),
      title_tag = None,
      full_text = ''Vacant stand R 350 000 Web Ref: LN54321'',
      next_link = None\<rparr>"

definition land_log :: skip_log where
  "land_log = \<lparr>log_url = land_url, reason = None, property_type = None\<rparr>"

definition land_item :: item where
  "land_item =
     \<lparr>ref = Some ''LN54321'', title = Some ''Vacant stand'', url = Some land_url,
      price = Some 350000, beds = Some 0, area = Some ''Orlando''\<rparr>"

text \<open>
  A results page of fetch_stock1.py without card containers: an anchor with text, whose
  context is a card of its own, and an anchor without text, whose context starts with
  another link.
\<close>

definition plain_anchor :: anchor where
  "plain_anchor =
     \<lparr>href = ''/results/residential/for-sale/a/b/house/11111/'', a_title = None,
      a_strings = [''Alpha'']\<rparr>"

definition image_anchor :: anchor where
  "image_anchor =
     \<lparr>href = ''/results/residential/for-sale/a/b/house/33333/'', a_title = None,
      a_strings = []\<rparr>"

definition example_listing :: listing_page where
  "example_listing =
     \<lparr>candidates = [],
      page_anchors =
        [(plain_anchor, \<lparr>first_anchor = Some plain_anchor, block_text = ''Alpha R 900 000''\<rparr>),
         (image_anchor,
          \<lparr>first_anchor = Some \<lparr>href = ''/contact/'', a_title = None, a_strings = [''Contact'']\<rparr>,
           block_text = ''Contact''\<rparr>)],
      next_href = None\<rparr>"

definition example_net1 :: net1 where
  "example_net1 k u = (if u = RESULTS_URL then Some example_listing else None)"

definition untitled_item :: item where
  "untitled_item =
     \<lparr>ref = None, title = Some ''Huizemark Property'',
      url = Some ''https://www.huizemark.com/results/residential/for-sale/a/b/house/33333/'',
      price = None, beds = None, area = Some ''B''\<rparr>"

text \<open>An index page: three residential anchors (one twice), another anchor, a JSON-LD address.\<close>

definition example_index :: page where
  "example_index =
     \<lparr>anchors =
        [''/results/residential/for-sale/sandton/sandton-central/house/123456/'',
         ''/contact/'',
         ''https://www.huizemark.com/results/residential/to-let/pretoria/arcadia/flat/654321/'',
         ''/results/residential/for-sale/sandton/morningside/flat/888888/'',
         ''/results/residential/for-sale/sandton/sandton-central/house/123456/''],
      jsonld =
        [JDict [(''url'',
                 JStr ''/results/residential/for-sale/soweto/orlando/vacant-land/777777/'')]],
      select_one = (\<lambda>sel. None),
      title_tag = None,
      full_text = [],
      next_link = None\<rparr>"

text \<open>
  A network that serves the index at both start addresses and three of the four detail
  pages.
\<close>

definition example_net :: net where
  "example_net k u =
     (if u = PROFILE_URL \<or> u = RESULTS_URL then Some example_index
      else if u = example_url then Some example_page
      else if u = tolet_url then Some unowned_page
      else if u = land_url then Some land_page
      else None)"

section \<open>Lemmas\<close>

subsection \<open>Cascades\<close>

lemma first_some_SomeD: "first_some f xs = Some y \<Longrightarrow> \<exists>x \<in> set xs. f x = Some y"
  by (induction xs) (auto split: option.splits)

lemma first_some_None_iff: "first_some f xs = None \<longleftrightarrow> (\<forall>x \<in> set xs. f x = None)"
  by (induction xs) (auto split: option.splits)

subsection \<open>Whitespace normalisation\<close>

lemma ws_normal_Cons:
  "ws_normal (a # xs) \<longleftrightarrow>
     (is_space a \<longrightarrow> a = CHR '' '' \<and> (xs = [] \<or> \<not> is_space (hd xs))) \<and> ws_normal xs"
  by (cases xs) auto

lemma hd_collapse_ws: "s \<noteq> [] \<Longrightarrow> \<not> is_space (hd s) \<Longrightarrow> hd (collapse_ws s) = hd s"
  by (cases s) auto

lemma ws_normal_collapse_ws: "ws_normal (collapse_ws s)"
proof (induction s rule: collapse_ws.induct)
  case 1
  show ?case by simp
next
  case (2 c cs)
  show ?case
  proof (cases "is_space c")
    case True
    let ?d = "dropWhile is_space cs"
    have "collapse_ws ?d = [] \<or> \<not> is_space (hd (collapse_ws ?d))"
    proof (cases "?d = []")
      case True
      then show ?thesis by (metis collapse_ws.simps(1))
    next
      case False
      then have "\<not> is_space (hd ?d)" by (rule hd_dropWhile)
      with False show ?thesis by (simp add: hd_collapse_ws)
    qed
    with True 2 show ?thesis
      by (simp add: ws_normal_Cons)
  next
    case False
    with 2 show ?thesis by (simp add: ws_normal_Cons)
  qed
qed

lemma collapse_ws_id: "ws_normal t \<Longrightarrow> collapse_ws t = t"
proof (induction t rule: ws_normal.induct)
  case 1
  show ?case by simp
next
  case (2 a)
  then show ?case by simp
next
  case (3 a b cs)
  then show ?case by auto
qed

lemma ws_normal_append: "ws_normal (xs @ ys) \<Longrightarrow> ws_normal xs \<and> ws_normal ys"
proof (induction xs)
  case Nil
  then show ?case by simp
next
  case (Cons a xs)
  then show ?case
    by (cases xs; cases ys) (auto simp: ws_normal_Cons)
qed

lemma ws_normal_no_adjacent: "ws_normal t \<Longrightarrow> no_adjacent_ws t"
  by (induction t rule: ws_normal.induct) auto

lemma strip_by_decomp: "\<exists>pre post. s = pre @ strip_by P s @ post"
proof -
  let ?d = "dropWhile P s"
  have "s = takeWhile P s @ ?d" by simp
  moreover have "?d = rev (dropWhile P (rev ?d)) @ rev (takeWhile P (rev ?d))"
    by (metis rev_append rev_rev_ident takeWhile_dropWhile_id)
  ultimately have "s = takeWhile P s @ strip_by P s @ rev (takeWhile P (rev ?d))"
    by (simp add: strip_by_def)
  then show ?thesis by blast
qed

lemma ws_normal_strip_by: "ws_normal s \<Longrightarrow> ws_normal (strip_by P s)"
  using strip_by_decomp [of s P] ws_normal_append by metis

lemma strip_by_ends:
  assumes "strip_by P s \<noteq> []"
  shows "\<not> P (hd (strip_by P s)) \<and> \<not> P (last (strip_by P s))"
proof -
  let ?d = "dropWhile P s"
  let ?e = "dropWhile P (rev ?d)"
  from assms have e: "?e \<noteq> []" by (simp add: strip_by_def)
  then have d: "?d \<noteq> []" by (metis dropWhile.simps(1) rev.simps(1))
  have "\<not> P (hd ?e)" using e by (rule hd_dropWhile)
  then have l: "\<not> P (last (strip_by P s))"
    using e by (simp add: strip_by_def last_rev)
  have "?d = strip_by P s @ rev (takeWhile P (rev ?d))"
    by (metis rev_append rev_rev_ident takeWhile_dropWhile_id strip_by_def)
  then have "hd ?d = hd (strip_by P s)"
    using assms by (metis hd_append2)
  moreover have "\<not> P (hd ?d)" using d by (rule hd_dropWhile)
  ultimately show ?thesis using l by simp
qed

lemma strip_by_id:
  assumes "t = [] \<or> (\<not> P (hd t) \<and> \<not> P (last t))"
  shows "strip_by P t = t"
proof (cases "t = []")
  case True
  then show ?thesis by (simp add: strip_by_def)
next
  case False
  with assms have h: "\<not> P (hd t)" and l: "\<not> P (last t)" by auto
  from False h have "dropWhile P t = t" by (cases t) auto
  moreover from False l have "dropWhile P (rev t) = rev t"
    by (cases "rev t") (auto simp: last_rev [symmetric] hd_rev)
  ultimately show ?thesis by (simp add: strip_by_def)
qed

lemma trimmed_norm_space: "trimmed (norm_space s)"
  using strip_by_ends [of is_space] by (auto simp: trimmed_def norm_space_def strip_def)

lemma ws_normal_norm_space: "ws_normal (norm_space s)"
  by (simp add: norm_space_def strip_def ws_normal_strip_by ws_normal_collapse_ws)

lemma norm_space_fixed: "trimmed t \<Longrightarrow> ws_normal t \<Longrightarrow> norm_space (Some t) = t"
  by (simp add: norm_space_def strip_def collapse_ws_id strip_by_id trimmed_def)

lemma norm_space_idem: "norm_space (Some (norm_space s)) = norm_space s"
  by (rule norm_space_fixed [OF trimmed_norm_space ws_normal_norm_space])

subsection \<open>The validator\<close>

lemma detail_title_normal: "detail_title pg = [] \<or> (\<exists>x. detail_title pg = norm_space x)"
proof (cases "first_some
             (\<lambda>sel. case select_one pg sel of
                      None \<Rightarrow> None
                    | Some n \<Rightarrow>
                        (let t = norm_space (Some (title_source n))
                         in if t \<noteq> [] then Some t else None))
             TITLE_SELECTORS")
  case None
  then show ?thesis
    by (auto simp: detail_title_def split: option.splits)
next
  case (Some t)
  from first_some_SomeD [OF this] have "\<exists>x. t = norm_space x"
    by (auto simp: Let_def split: option.splits if_splits)
  with Some show ?thesis
    by (simp add: detail_title_def)
qed

text \<open>What a returned item holds: each field is the value of its extractor.\<close>

lemma validator_SomeD:
  assumes "extract_complete_item_from_detail pg u slog = Inr (Some it, slog')"
  shows "verify_agent_ownership pg (full_text pg)"
    and "\<exists>a. parse_location_from_url u = Some a \<and> a \<noteq> [] \<and> area it = Some a"
    and "title it = Some (detail_title pg) \<and> detail_title pg \<noteq> []"
    and "\<exists>p. extract_price pg (full_text pg) = Some p \<and> price it = Some p"
    and "\<exists>b. extract_beds pg (full_text pg)
            (lower (case property_type_from_url u of None \<Rightarrow> [] | Some t \<Rightarrow> t)) = Inr (Some b)
          \<and> beds it = Some b"
    and "\<exists>r. extract_ref pg (full_text pg) u = Some r \<and> r \<noteq> [] \<and> ref it = Some r"
    and "url it = Some u"
    and "slog' = slog"
  using assms unfolding extract_complete_item_from_detail_def Let_def
  by (auto split: if_splits option.splits sum.splits)

lemma example_validates:
  "extract_complete_item_from_detail example_page example_url example_log
     = Inr (Some example_item, example_log)"
  by code_simp

subsection \<open>De-duplication\<close>

lemma dedupe_by_acc: "dedupe_by key xs seen uniq = uniq @ dedupe_by key xs seen []"
proof (induction xs arbitrary: seen uniq)
  case Nil
  show ?case by simp
next
  case (Cons x xs)
  show ?case
  proof (cases "key x \<in> seen")
    case True
    then show ?thesis using Cons [of seen uniq] by simp
  next
    case False
    have "dedupe_by key xs (insert (key x) seen) (uniq @ [x])
            = (uniq @ [x]) @ dedupe_by key xs (insert (key x) seen) []"
      by (rule Cons)
    moreover have "dedupe_by key xs (insert (key x) seen) [x]
            = [x] @ dedupe_by key xs (insert (key x) seen) []"
      by (rule Cons)
    ultimately show ?thesis using False by simp
  qed
qed

lemma dedupe_by_Cons:
  "dedupe_by key (x # xs) seen [] =
     (if key x \<in> seen then dedupe_by key xs seen []
      else x # dedupe_by key xs (insert (key x) seen) [])"
  using dedupe_by_acc [of key xs "insert (key x) seen" "[x]"] by simp

lemma dedupe_by_subset: "set (dedupe_by key xs seen []) \<subseteq> set xs"
  by (induction xs arbitrary: seen) (auto simp: dedupe_by_Cons simp del: dedupe_by.simps(2))

lemma dedupe_by_fresh: "x \<in> set (dedupe_by key xs seen []) \<Longrightarrow> key x \<notin> seen"
  by (induction xs arbitrary: seen)
    (auto simp: dedupe_by_Cons simp del: dedupe_by.simps(2) split: if_splits)

lemma dedupe_by_distinct: "distinct (map key (dedupe_by key xs seen []))"
  by (induction xs arbitrary: seen)
    (auto simp: dedupe_by_Cons simp del: dedupe_by.simps(2) dest: dedupe_by_fresh)

lemma dedupe_by_id:
  "distinct (map key xs) \<Longrightarrow> key ` set xs \<inter> seen = {} \<Longrightarrow> dedupe_by key xs seen [] = xs"
  by (induction xs arbitrary: seen) (auto simp: dedupe_by_Cons simp del: dedupe_by.simps(2))

lemma dedupe_by_keys: "key ` set (dedupe_by key xs seen []) = key ` set xs - seen"
  by (induction xs arbitrary: seen)
    (auto simp: dedupe_by_Cons simp del: dedupe_by.simps(2) split: if_splits)


lemma distinct_dedupe: "distinct (dedupe us)"
  using dedupe_by_distinct [of "\<lambda>u. u" us "{}"] by (simp add: dedupe_def)

lemma dedupe_idem: "dedupe (dedupe us) = dedupe us"
  using distinct_dedupe [of us] by (simp add: dedupe_def dedupe_by_id)

subsection \<open>Sorting\<close>

lemma distinct_map_sort_key: "distinct (map g (sort_key f xs)) = distinct (map g xs)"
proof -
  have "mset (map g (sort_key f xs)) = mset (map g xs)"
    by simp
  then show ?thesis
    by (rule mset_eq_imp_distinct_iff)
qed

lemma sort_desc_idem: "sort_desc f (sort_desc f xs) = sort_desc f xs"
  by (simp add: sort_desc_def sort_key_id_if_sorted)

lemma distinct_map_sort_desc: "distinct (map g (sort_desc f xs)) = distinct (map g xs)"
  by (simp add: sort_desc_def distinct_map_sort_key rev_map [symmetric] del: rev_map)

lemma sorted_wrt_sort_desc: "sorted_wrt (\<lambda>a b. f b \<le> f a) (sort_desc f xs)"
proof -
  have "sorted (map f (sort_key f (rev xs)))"
    by (rule sorted_sort_key)
  then show ?thesis
    by (simp add: sort_desc_def sorted_wrt_rev sorted_map)
qed

lemma filter_sort_desc: "filter (\<lambda>y. f y = k) (sort_desc f xs) = filter (\<lambda>y. f y = k) xs"
  by (simp add: sort_desc_def rev_filter [symmetric] sort_key_stable del: rev_filter)

lemma set_sort_desc: "set (sort_desc f xs) = set xs"
  by (simp add: sort_desc_def)

lemma final_catalog_idem: "final_catalog (final_catalog items) = final_catalog items"
proof -
  let ?d = "dedupe_by url items {} []"
  have "distinct (map url ?d)"
    by (rule dedupe_by_distinct)
  then have "distinct (map url (sort_desc sort_key_item ?d))"
    by (simp add: distinct_map_sort_desc)
  then have "dedupe_by url (sort_desc sort_key_item ?d) {} [] = sort_desc sort_key_item ?d"
    by (simp add: dedupe_by_id)
  then show ?thesis
    by (simp add: final_catalog_def sort_desc_idem)
qed

lemma final_catalog1_idem: "final_catalog1 (final_catalog1 items) = final_catalog1 items"
proof -
  let ?f = "filter (\<lambda>it. nonempty (url it)) items"
  let ?d = "dedupe_by url ?f {} []"
  let ?s = "sort_desc (\<lambda>x. or_zero (price x)) ?d"
  have "distinct (map url ?d)"
    by (rule dedupe_by_distinct)
  then have dist: "distinct (map url ?s)"
    by (simp add: distinct_map_sort_desc)
  have "set ?s \<subseteq> set ?f"
    using dedupe_by_subset [of url ?f "{}"] by (simp add: sort_desc_def)
  then have "filter (\<lambda>it. nonempty (url it)) ?s = ?s"
    by (auto simp: filter_id_conv)
  moreover from dist have "dedupe_by url ?s {} [] = ?s"
    by (simp add: dedupe_by_id)
  ultimately show ?thesis
    by (simp add: final_catalog1_def sort_desc_idem)
qed

subsection \<open>The crawl\<close>







lemma map_filter_SomeD: "y \<in> set (List.map_filter f xs) \<Longrightarrow> \<exists>x \<in> set xs. f x = Some y"
  by (induction xs) (auto split: option.splits)






subsection \<open>Area from the path\<close>


















subsection \<open>Numbers\<close>

lemma digit_val_nonneg: "0 \<le> digit_val c"
  by (simp add: digit_val_def)

lemma foldl_digits_nonneg: "0 \<le> n \<Longrightarrow> 0 \<le> foldl (\<lambda>n c. 10 * n + digit_val c) n ds"
  by (induction ds arbitrary: n) (auto simp: digit_val_nonneg)

lemma int_of_digits_nonneg: "0 \<le> int_of_digits ds"
  by (simp add: int_of_digits_def foldl_digits_nonneg)

lemma to_int_money_nonneg: "to_int_money t = Some n \<Longrightarrow> 0 \<le> n"
  by (auto simp: to_int_money_def Let_def int_of_digits_nonneg split: option.splits if_splits)

lemma to_int_nonneg: "to_int t = Some n \<Longrightarrow> 0 \<le> n"
  by (auto simp: to_int_def Let_def int_of_digits_nonneg split: option.splits if_splits)

lemma extract_price_nonneg: "extract_price pg txt = Some p \<Longrightarrow> 0 \<le> p"
proof -
  assume a: "extract_price pg txt = Some p"
  have m: "price_from_meta pg = Some p \<Longrightarrow> 0 \<le> p"
    by (auto simp: price_from_meta_def Let_def split: option.splits if_splits dest: to_int_money_nonneg)
  have b: "price_from_blocks pg = Some p \<Longrightarrow> 0 \<le> p"
    by (auto simp: price_from_blocks_def Let_def split: option.splits if_splits
        dest!: first_some_SomeD dest: to_int_money_nonneg)
  have t: "price_from_text txt = Some p \<Longrightarrow> 0 \<le> p"
    by (auto simp: price_from_text_def split: option.splits dest: to_int_money_nonneg)
  from a m b t show ?thesis
    by (auto simp: extract_price_def split: option.splits)
qed

lemma beds_of_value_nonneg: "beds_of_value v = Some (Inr (Some b)) \<Longrightarrow> 0 \<le> b"
  by (cases v rule: beds_of_value.cases) (auto split: if_splits dest: to_int_nonneg)

lemma extract_beds_nonneg: "extract_beds pg txt ptype = Inr (Some b) \<Longrightarrow> 0 \<le> b"
proof -
  assume a: "extract_beds pg txt ptype = Inr (Some b)"
  have j: "beds_from_jsonld pg = Some (Inr (Some b)) \<Longrightarrow> 0 \<le> b"
    by (auto simp: beds_from_jsonld_def dest!: first_some_SomeD dest: beds_of_value_nonneg)
  have l: "beds_from_label txt = Some b \<Longrightarrow> 0 \<le> b"
    by (auto simp: beds_from_label_def int_of_digits_nonneg split: option.splits)
  have k: "beds_from_blocks pg = Some b \<Longrightarrow> 0 \<le> b"
    by (auto simp: beds_from_blocks_def split: option.splits dest!: first_some_SomeD dest: to_int_nonneg)
  have p: "beds_from_phrase txt = Some b \<Longrightarrow> 0 \<le> b"
    by (auto simp: beds_from_phrase_def int_of_digits_nonneg split: option.splits)
  from a j l k p show ?thesis
    by (auto simp: extract_beds_def split: option.splits if_splits)
qed

lemma parse_location_empty: "parse_location_from_url [] = None"
  by code_simp

lemma validator_complete:
  assumes "extract_complete_item_from_detail pg u slog = Inr (Some it, slog')"
  shows "complete_item it"
  using validator_SomeD [OF assms] extract_price_nonneg extract_beds_nonneg parse_location_empty
  by (auto simp: complete_item_def nonempty_def)

lemma validator_None_reason:
  assumes "extract_complete_item_from_detail pg u slog = Inr (None, slog')"
  shows "\<exists>c \<in> set VALIDATOR_REASONS. reason slog' = Some c"
  using assms unfolding extract_complete_item_from_detail_def Let_def VALIDATOR_REASONS_def
  by (auto split: if_splits option.splits sum.splits)

subsection \<open>Outcomes of the validator and of the run\<close>





lemma detail_loop_invariant:
  "detail_loop nt k us items skipped = Inr (items', skipped')
     \<Longrightarrow> \<forall>it \<in> set items. fetched_record nt it
     \<Longrightarrow> \<forall>s \<in> set skipped. skip_ok s
     \<Longrightarrow> (\<forall>it \<in> set items'. fetched_record nt it) \<and> (\<forall>s \<in> set skipped'. skip_ok s)
         \<and> length items' + length skipped' = length items + length skipped + length us"
proof (induction us arbitrary: k items skipped)
  case Nil
  then show ?case by simp
next
  case (Cons u us)
  let ?log0 = "\<lparr>log_url = u, reason = None, property_type = None\<rparr>"
  show ?case
  proof (cases "nt k u")
    case None
    let ?failed = "\<lparr>log_url = u, reason = Some ''detail_fetch_failed'', property_type = None\<rparr>"
    from None Cons.prems(1)
    have run: "detail_loop nt (Suc k) us items (skipped @ [?failed]) = Inr (items', skipped')"
      by simp
    have "skip_ok ?failed"
      by (simp add: skip_ok_def)
    with Cons.prems(3) have "\<forall>s \<in> set (skipped @ [?failed]). skip_ok s"
      by simp
    from Cons.IH [OF run Cons.prems(2) this] show ?thesis
      by simp
  next
    case (Some pg)
    show ?thesis
    proof (cases "extract_complete_item_from_detail pg u ?log0")
      case (Inl e)
      with Some Cons.prems(1) show ?thesis by simp
    next
      case (Inr res)
      obtain r slog' where res: "res = (r, slog')" by (cases res)
      show ?thesis
      proof (cases r)
        case None
        with Some Inr res Cons.prems(1)
        have run: "detail_loop nt (Suc k) us items (skipped @ [slog']) = Inr (items', skipped')"
          by simp
        from Inr res None have "\<exists>c \<in> set VALIDATOR_REASONS. reason slog' = Some c"
          by (intro validator_None_reason [of pg u ?log0]) simp
        then have "skip_ok slog'"
          by (auto simp: skip_ok_def)
        with Cons.prems(3) have "\<forall>s \<in> set (skipped @ [slog']). skip_ok s"
          by simp
        from Cons.IH [OF run Cons.prems(2) this] show ?thesis
          by simp
      next
        case (Some it)
        with \<open>nt k u = Some pg\<close> Inr res Cons.prems(1)
        have run: "detail_loop nt (Suc k) us (items @ [it]) skipped = Inr (items', skipped')"
          by simp
        have "fetched_record nt it"
          unfolding fetched_record_def
          using \<open>nt k u = Some pg\<close> Inr res Some by blast
        with Cons.prems(2) have "\<forall>x \<in> set (items @ [it]). fetched_record nt x"
          by simp
        from Cons.IH [OF run this Cons.prems(3)] show ?thesis
          by simp
      qed
    qed
  qed
qed

lemma main_outputs:
  assumes "main nt = Inr (catalog, skipped)"
  shows "(\<forall>it \<in> set catalog. fetched_record nt it) \<and> (\<forall>s \<in> set skipped. skip_ok s)"
proof -
  obtain merged k where mk: "merged_urls nt = (merged, k)"
    by (cases "merged_urls nt")
  with assms obtain items where
    run: "detail_loop nt k merged [] [] = Inr (items, skipped)" and cat: "catalog = final_catalog items"
    by (auto simp: main_def split: sum.splits)
  from detail_loop_invariant [OF run]
  have inv: "(\<forall>it \<in> set items. fetched_record nt it) \<and> (\<forall>s \<in> set skipped. skip_ok s)"
    by simp
  have "set catalog \<subseteq> set items"
    using dedupe_by_subset [of url items "{}"] by (simp add: cat final_catalog_def set_sort_desc)
  with inv show ?thesis by blast
qed



lemma example_main:
  "main example_net =
     Inr ([example_item, land_item],
          [\<lparr>log_url = tolet_url, reason = Some ''not_owned_by_agent_75570'', property_type = None\<rparr>,
           \<lparr>log_url = flat_url, reason = Some ''detail_fetch_failed'', property_type = None\<rparr>])"
  by code_simp

subsection \<open>Bedrooms\<close>






lemma example_land:
  "extract_complete_item_from_detail land_page land_url land_log = Inr (Some land_item, land_log)"
  by code_simp

lemma example_bedless:
  "extract_complete_item_from_detail bedless_page example_url example_log
     = Inr (None, example_log\<lparr>reason := Some ''missing_beds_required_for_residential'',
                               property_type := Some ''house''\<rparr>)"
  by code_simp

subsection \<open>Price\<close>

lemma price_zero_only_from_text:
  "price_from_meta pg \<noteq> Some 0 \<and> price_from_blocks pg \<noteq> Some 0"
proof
  show "price_from_meta pg \<noteq> Some 0"
    by (auto simp: price_from_meta_def Let_def nonzero_def split: option.splits if_splits)
  show "price_from_blocks pg \<noteq> Some 0"
  proof
    assume "price_from_blocks pg = Some 0"
    from first_some_SomeD [OF this [unfolded price_from_blocks_def]]
    show False
      by (auto simp: Let_def nonzero_def split: option.splits if_splits)
  qed
qed


subsection \<open>References\<close>





subsection \<open>The results-only script\<close>

lemma extract_from_card_SomeD: "extract_from_card c = Some it \<Longrightarrow> has_url_and_title it"
  by (auto simp: extract_from_card_def Let_def has_url_and_title_def split: if_splits)

lemma fallback_item_title: "nonempty (title (fallback_item ac))"
  using extract_from_card_SomeD [of "snd ac"]
  by (auto simp: fallback_item_def Let_def nonempty_def has_url_and_title_def split: option.splits)

lemma listings_have_url_and_title:
  assumes "it \<in> set (extract_listings_from_html lp)"
  shows "has_url_and_title it"
proof -
  let ?cards = "List.map_filter extract_from_card (candidates lp)"
  let ?fb = "map fallback_item
               (filter (\<lambda>ac. contains residential_fragment (href (fst ac))) (page_anchors lp))"
  from assms have "it \<in> set (filter (\<lambda>it. nonempty (url it)) (if ?cards = [] then ?fb else ?cards))"
    using dedupe_by_subset [of url _ "{}"] by (fastforce simp: extract_listings_from_html_def Let_def)
  then have u: "nonempty (url it)" and mem: "it \<in> set ?cards \<or> it \<in> set ?fb"
    by (auto split: if_splits)
  from mem have "nonempty (title it)"
  proof
    assume "it \<in> set ?cards"
    then show ?thesis
      by (auto dest!: map_filter_SomeD extract_from_card_SomeD simp: has_url_and_title_def)
  next
    assume "it \<in> set ?fb"
    then show ?thesis
      by (auto simp: fallback_item_title)
  qed
  with u show ?thesis by (simp add: has_url_and_title_def)
qed

lemma crawl1_invariant:
  "crawl1 nt k cur pages all_items = Inr out \<Longrightarrow> \<forall>it \<in> set all_items. has_url_and_title it
     \<Longrightarrow> \<forall>it \<in> set out. has_url_and_title it"
proof (induction nt k cur pages all_items rule: crawl1.induct)
  case (1 nt k cur pages all_items)
  show ?case
  proof (cases cur)
    case None
    with 1(2,3) show ?thesis by (simp add: crawl1.simps)
  next
    case (Some u)
    show ?thesis
    proof (cases "u = [] \<or> \<not> pages < MAX_PAGES1")
      case True
      with Some 1(2,3) show ?thesis by (auto simp: crawl1.simps)
    next
      case False
      show ?thesis
      proof (cases "nt k u")
        case None
        with \<open>cur = Some u\<close> False 1(2) show ?thesis by (auto simp: crawl1.simps)
      next
        case (Some pg)
        let ?next = "case next_href pg of
                      None \<Rightarrow> None
                    | Some nxt \<Rightarrow> if nxt = [] then None else Some (next_url1 nxt)"
        have run: "crawl1 nt (Suc k) ?next (Suc pages) (all_items @ extract_listings_from_html pg) = Inr out"
          using 1(2) \<open>cur = Some u\<close> False Some by (subst (asm) crawl1.simps) auto
        have "\<forall>it \<in> set (all_items @ extract_listings_from_html pg). has_url_and_title it"
          using 1(3) listings_have_url_and_title by auto
        from 1(1) [OF \<open>cur = Some u\<close> False Some run this] show ?thesis .
      qed
    qed
  qed
qed

lemma main1_outputs:
  assumes "main1 nt = Inr catalog"
  shows "\<forall>it \<in> set catalog. has_url_and_title it"
proof -
  from assms obtain all_items where
    run: "crawl1 nt 0 (Some RESULTS_URL) 0 [] = Inr all_items" and cat: "catalog = final_catalog1 all_items"
    by (auto simp: main1_def split: sum.splits)
  from crawl1_invariant [OF run] have "\<forall>it \<in> set all_items. has_url_and_title it"
    by simp
  moreover have "set catalog \<subseteq> set all_items"
    using dedupe_by_subset [of url "filter (\<lambda>it. nonempty (url it)) all_items" "{}"]
    by (auto simp: cat final_catalog1_def set_sort_desc)
  ultimately show ?thesis by blast
qed





lemma example_main1: "main1 example_net1 = Inr [card_a, untitled_item]"
  by code_simp

lemma land_item_beds: "beds land_item = Some 0"
  by (simp add: land_item_def)

section \<open>Claims\<close>

text \<open>
  C10. \<open>norm_space\<close> is idempotent; its result has no whitespace at either end and no
  two adjacent whitespace characters; and the title of every record the validator returns
  is such a normalised string (a fixed point of \<open>norm_space\<close>).
\<close>

theorem norm_space_normal_form:
  "norm_space (Some (norm_space s)) = norm_space s
   \<and> trimmed (norm_space s)
   \<and> no_adjacent_ws (norm_space s)
   \<and> (extract_complete_item_from_detail pg u slog = Inr (Some it, slog') \<longrightarrow>
        (\<exists>t. title it = Some t \<and> norm_space (Some t) = t \<and> trimmed t \<and> no_adjacent_ws t))"
proof (intro conjI impI)
  show "norm_space (Some (norm_space s)) = norm_space s"
    by (rule norm_space_idem)
  show "trimmed (norm_space s)"
    by (rule trimmed_norm_space)
  show "no_adjacent_ws (norm_space s)"
    by (rule ws_normal_no_adjacent [OF ws_normal_norm_space])
next
  assume ok: "extract_complete_item_from_detail pg u slog = Inr (Some it, slog')"
  from validator_SomeD(3) [OF ok]
  have t: "title it = Some (detail_title pg)" and ne: "detail_title pg \<noteq> []"
    by simp_all
  from detail_title_normal [of pg] ne obtain x where x: "detail_title pg = norm_space x"
    by auto
  have "norm_space (Some (norm_space x)) = norm_space x"
    by (rule norm_space_idem)
  moreover have "trimmed (norm_space x)"
    by (rule trimmed_norm_space)
  moreover have "no_adjacent_ws (norm_space x)"
    by (rule ws_normal_no_adjacent [OF ws_normal_norm_space])
  ultimately show "\<exists>t. title it = Some t \<and> norm_space (Some t) = t \<and> trimmed t \<and> no_adjacent_ws t"
    using t x by simp
qed

theorem norm_space_normal_form_witness:
  "extract_complete_item_from_detail example_page example_url example_log
     = Inr (Some example_item, example_log)
   \<and> norm_space (Some (norm_space (Some ''  Family   home ''))) = norm_space (Some ''  Family   home '')
   \<and> trimmed (norm_space (Some ''  Family   home ''))
   \<and> no_adjacent_ws (norm_space (Some ''  Family   home ''))
   \<and> (\<exists>t. title example_item = Some t \<and> norm_space (Some t) = t \<and> trimmed t
          \<and> no_adjacent_ws t)"
  using example_validates
    norm_space_normal_form [of "Some ''  Family   home ''" example_page example_url example_log
      example_item example_log]
  by simp



text \<open>
  C8. De-duplicating and sorting is idempotent: applied to its own output, the final
  step of either script returns that output unchanged, and so does the de-duplication
  of the merged address list.
\<close>

theorem dedupe_sort_idempotent:
  "final_catalog (final_catalog items) = final_catalog items
   \<and> final_catalog1 (final_catalog1 items) = final_catalog1 items
   \<and> dedupe (dedupe us) = dedupe us"
  by (simp add: final_catalog_idem final_catalog1_idem dedupe_idem)

theorem dedupe_sort_idempotent_witness:
  "final_catalog (final_catalog [card_a, card_b, card_a]) = [card_b, card_a]
   \<and> final_catalog1 (final_catalog1 [card_a, card_b, card_a]) = [card_a, card_b]
   \<and> dedupe (dedupe [''u'', ''v'', ''u'']) = [''u'', ''v'']"
  using dedupe_sort_idempotent [of "[card_a, card_b, card_a]" "[''u'', ''v'', ''u'']"]
  by (simp add: final_catalog_def final_catalog1_def sort_desc_def card_a_def card_b_def
      sort_key_item_def or_zero_def or_empty_def nonempty_def dedupe_def)

text \<open>
  C7 (as amended). The catalog of fetch_stock.py holds one record for each address, in
  descending order of price and, among equal prices, in descending order of title. The
  catalog of fetch_stock1.py holds one record for each address in descending order of
  price only: records of equal price keep the order in which they were found.
\<close>

theorem catalog_order:
  "sorted_wrt by_price_then_title (final_catalog items)
   \<and> distinct (map url (final_catalog items))
   \<and> url ` set (final_catalog items) = url ` set items
   \<and> sorted_wrt by_price (final_catalog1 items)
   \<and> distinct (map url (final_catalog1 items))
   \<and> filter (\<lambda>x. or_zero (price x) = p) (final_catalog1 items)
       = filter (\<lambda>x. or_zero (price x) = p)
           (dedupe_by url (filter (\<lambda>it. nonempty (url it)) items) {} [])"
proof (intro conjI)
  have "sorted_wrt (\<lambda>a b. sort_key_item b \<le> sort_key_item a) (final_catalog items)"
    unfolding final_catalog_def by (rule sorted_wrt_sort_desc)
  moreover have "(\<lambda>a b. sort_key_item b \<le> sort_key_item a) = by_price_then_title"
    by (auto simp: fun_eq_iff sort_key_item_def by_price_then_title_def less_eq_prod_def)
  ultimately show "sorted_wrt by_price_then_title (final_catalog items)"
    by simp
  show "distinct (map url (final_catalog items))"
    by (simp add: final_catalog_def distinct_map_sort_desc dedupe_by_distinct)
  show "url ` set (final_catalog items) = url ` set items"
    by (simp add: final_catalog_def set_sort_desc dedupe_by_keys)
  show "sorted_wrt by_price (final_catalog1 items)"
    unfolding final_catalog1_def by_price_def by (rule sorted_wrt_sort_desc)
  show "distinct (map url (final_catalog1 items))"
    by (simp add: final_catalog1_def distinct_map_sort_desc dedupe_by_distinct)
  show "filter (\<lambda>x. or_zero (price x) = p) (final_catalog1 items)
       = filter (\<lambda>x. or_zero (price x) = p)
           (dedupe_by url (filter (\<lambda>it. nonempty (url it)) items) {} [])"
    unfolding final_catalog1_def by (rule filter_sort_desc)
qed

theorem catalog_order_witness:
  "final_catalog [card_a, card_b, card_a] = [card_b, card_a]
   \<and> sorted_wrt by_price_then_title (final_catalog [card_a, card_b, card_a])
   \<and> sorted_wrt by_price (final_catalog1 [card_a, card_b, card_a])"
  using catalog_order [of "[card_a, card_b, card_a]"]
  by (simp add: final_catalog_def sort_desc_def card_a_def card_b_def sort_key_item_def
      or_zero_def or_empty_def)

text \<open>
  C7 as stated fails for fetch_stock1.py: two records of equal price come out in the
  order they went in, whichever it is, so the title does not break the tie.
\<close>

theorem price_only_sort_counterexample:
  "final_catalog1 [card_a, card_b] = [card_a, card_b]
   \<and> final_catalog1 [card_b, card_a] = [card_b, card_a]
   \<and> price card_a = price card_b \<and> title card_a \<noteq> title card_b
   \<and> \<not> sorted_wrt by_price_then_title (final_catalog1 [card_a, card_b])"
  by (simp add: final_catalog1_def sort_desc_def card_a_def card_b_def nonempty_def or_zero_def
      by_price_then_title_def or_empty_def)







text \<open>
  C1 (as amended). Every record of the catalog of fetch_stock.py is one the validator
  returned for a fetched page, and every record the validator returns is complete
  (\<open>ref\<close>, \<open>title\<close>, \<open>url\<close>, \<open>area\<close> non-empty, \<open>price\<close> and \<open>beds\<close> non-negative
  integers), each field being the value of its extractor. A record of the catalog of
  fetch_stock1.py has a non-empty \<open>url\<close> and \<open>title\<close>; nothing is said of its other
  fields.
\<close>

theorem catalog_records_complete:
  "(main nt = Inr (catalog, skipped) \<longrightarrow>
      (\<forall>it \<in> set catalog. complete_item it \<and> fetched_record nt it))
   \<and> (extract_complete_item_from_detail pg u slog = Inr (Some it, slog') \<longrightarrow>
        complete_item it
        \<and> ref it = extract_ref pg (full_text pg) u
        \<and> title it = Some (detail_title pg)
        \<and> url it = Some u
        \<and> price it = extract_price pg (full_text pg)
        \<and> extract_beds pg (full_text pg) (detail_ptype u) = Inr (beds it)
        \<and> area it = parse_location_from_url u)
   \<and> (main1 nt1 = Inr catalog1 \<longrightarrow> (\<forall>it \<in> set catalog1. has_url_and_title it))"
proof (intro conjI impI ballI)
  fix x
  assume run: "main nt = Inr (catalog, skipped)" and x: "x \<in> set catalog"
  from main_outputs [OF run] x show "fetched_record nt x"
    by blast
  then show "complete_item x"
    by (auto simp: fetched_record_def dest: validator_complete)
next
  assume ok: "extract_complete_item_from_detail pg u slog = Inr (Some it, slog')"
  show "complete_item it"
    by (rule validator_complete [OF ok])
  show "ref it = extract_ref pg (full_text pg) u"
    using validator_SomeD(6) [OF ok] by auto
  show "title it = Some (detail_title pg)"
    using validator_SomeD(3) [OF ok] by simp
  show "url it = Some u"
    by (rule validator_SomeD(7) [OF ok])
  show "price it = extract_price pg (full_text pg)"
    using validator_SomeD(4) [OF ok] by auto
  show "extract_beds pg (full_text pg) (detail_ptype u) = Inr (beds it)"
    using validator_SomeD(5) [OF ok] by (auto simp: detail_ptype_def)
  show "area it = parse_location_from_url u"
    using validator_SomeD(2) [OF ok] by auto
next
  fix x
  assume "main1 nt1 = Inr catalog1" and "x \<in> set catalog1"
  then show "has_url_and_title x"
    using main1_outputs by blast
qed

theorem catalog_records_complete_witness:
  "main example_net =
     Inr ([example_item, land_item],
          [\<lparr>log_url = tolet_url, reason = Some ''not_owned_by_agent_75570'', property_type = None\<rparr>,
           \<lparr>log_url = flat_url, reason = Some ''detail_fetch_failed'', property_type = None\<rparr>])
   \<and> complete_item example_item \<and> complete_item land_item
   \<and> fetched_record example_net land_item
   \<and> extract_complete_item_from_detail land_page land_url land_log = Inr (Some land_item, land_log)
   \<and> beds land_item = Some 0
   \<and> extract_beds land_page (full_text land_page) (detail_ptype land_url) = Inr (Some 0)
   \<and> main1 example_net1 = Inr [card_a, untitled_item]
   \<and> has_url_and_title card_a \<and> has_url_and_title untitled_item"
  using example_main example_land example_main1
    catalog_records_complete [of example_net "[example_item, land_item]"
      "[\<lparr>log_url = tolet_url, reason = Some ''not_owned_by_agent_75570'', property_type = None\<rparr>,
        \<lparr>log_url = flat_url, reason = Some ''detail_fetch_failed'', property_type = None\<rparr>]"
      land_page land_url land_log land_item land_log example_net1 "[card_a, untitled_item]"]
    land_item_beds
  by simp

text \<open>
  C1 as stated fails for fetch_stock1.py: its catalog holds records without \<open>ref\<close>,
  \<open>price\<close> or \<open>beds\<close>, and a record whose title is the default text.
\<close>

theorem partial_records_counterexample:
  "main1 example_net1 = Inr [card_a, untitled_item]
   \<and> \<not> complete_item card_a \<and> \<not> complete_item untitled_item
   \<and> ref card_a = None \<and> beds card_a = None \<and> price untitled_item = None
   \<and> title untitled_item = Some ''Huizemark Property''"
  by code_simp



text \<open>
  C4, evaluated where the code departs from it: a page whose only price evidence is
  the text \<open>R 0\<close> gets the price 0 from \<open>extract_price\<close>, and the validator returns
  a record with that price instead of rejecting the page with \<open>missing_price\<close>.
\<close>

theorem zero_price_accepted:
  "extract_price zero_price_page (full_text zero_price_page) = Some 0
   \<and> extract_complete_item_from_detail zero_price_page example_url example_log
       = Inr (Some (example_item\<lparr>price := Some 0\<rparr>), example_log)"
  by code_simp




end
